theory Spec2Isabelle
  imports Complex_Main "HOL-Library.Multiset"
begin

section \<open>Python values and errors\<close>

text \<open>
  The constructor of \<open>Proceso\<close> inspects the run-time type of its arguments with
  \<open>isinstance\<close>, and \<open>from_dict\<close> converts dictionary values with \<open>int(...)\<close>, so
  arguments and dictionary values are dynamically typed values. A Python \<open>bool\<close> is an
  \<open>int\<close> (\<open>True == 1\<close>) and is represented by \<open>VInt\<close>; a floating point number is
  not a value of this type. A character is one code point in the range 0..255.
\<close>

datatype pyval = VNone | VInt int | VStr string

text \<open>
  Each \<open>ValueError\<close> of the source carries a fixed message; the constructors stand for
  them in the order of the source:
  \<open>PidVacio\<close> "El PID no puede estar vacio",
  \<open>DuracionNoPositiva\<close> "La duracion debe ser un entero positivo",
  \<open>PrioridadNoEntera\<close> "La prioridad debe ser un entero",
  \<open>LlegadaNoValida\<close> "El tiempo de llegada debe ser un entero no negativo",
  \<open>QuantumNoPositivo\<close> "El quantum debe ser un entero positivo".
  The others are the exceptions of the built-ins: a missing dictionary key, \<open>int()\<close> of a
  string it rejects or of \<open>None\<close>, a list index out of range, and a quotient of
  integers too large for a float.
\<close>

datatype error =
    PidVacio | DuracionNoPositiva | PrioridadNoEntera | LlegadaNoValida
  | QuantumNoPositivo
  | KeyError string | IntValueError | IntTypeError | IndexError | OverflowError

subsection \<open>The built-ins \<open>str.strip\<close> and \<open>int\<close>\<close>

text \<open>The characters that \<open>str.strip\<close> removes from both ends.\<close>

definition es_espacio :: "char \<Rightarrow> bool" where
  "es_espacio c =
     (let n = (of_char c :: nat)
      in (9 \<le> n \<and> n \<le> 13) \<or> (28 \<le> n \<and> n \<le> 32) \<or> n = 133 \<or> n = 160)"

definition strip :: "string \<Rightarrow> string" where
  "strip s = rev (dropWhile es_espacio (rev (dropWhile es_espacio s)))"

text \<open>
  The built-in \<open>int\<close>: the identity on an integer, \<open>TypeError\<close> on \<open>None\<close>. What it
  returns on a string (the number, or \<open>ValueError\<close>) is decided by the interpreter, its
  version and its limit on the number of digits, and is the parameter \<open>int_de_str\<close>.
\<close>

definition py_int :: "(string \<Rightarrow> error + int) \<Rightarrow> pyval \<Rightarrow> error + int" where
  "py_int int_de_str v =
     (case v of
        VNone \<Rightarrow> Inl IntTypeError
      | VInt n \<Rightarrow> Inr n
      | VStr s \<Rightarrow> int_de_str s)"

section \<open>proceso.py\<close>

record Proceso =
  pid :: string
  duracion :: int
  prioridad :: int
  tiempo_llegada :: int
  tiempo_restante :: int
  tiempo_inicio :: "int option"
  tiempo_fin :: "int option"

text \<open>
  \<open>Proceso.__init__(pid, duracion, prioridad, tiempo_llegada=0)\<close>: the last argument
  is \<open>None\<close> when the caller omits it. The four checks run in the order of the source
  and the first that fails raises.
\<close>

definition Proceso_init ::
  "pyval \<Rightarrow> pyval \<Rightarrow> pyval \<Rightarrow> pyval option \<Rightarrow> error + Proceso" where
  "Proceso_init pid_arg duracion_arg prioridad_arg llegada_arg =
     (let llegada_val = (case llegada_arg of None \<Rightarrow> VInt 0 | Some v \<Rightarrow> v)
      in case pid_arg of
           VStr p \<Rightarrow>
             if p = [] \<or> strip p = [] then Inl PidVacio
             else (case duracion_arg of
                     VInt d \<Rightarrow>
                       if d \<le> 0 then Inl DuracionNoPositiva
                       else (case prioridad_arg of
                               VInt pr \<Rightarrow>
                                 (case llegada_val of
                                    VInt a \<Rightarrow>
                                      if a < 0 then Inl LlegadaNoValida
                                      else Inr \<lparr>pid = p, duracion = d, prioridad = pr,
                                                tiempo_llegada = a, tiempo_restante = d,
                                                tiempo_inicio = None, tiempo_fin = None\<rparr>
                                  | _ \<Rightarrow> Inl LlegadaNoValida)
                             | _ \<Rightarrow> Inl PrioridadNoEntera)
                   | _ \<Rightarrow> Inl DuracionNoPositiva)
         | _ \<Rightarrow> Inl PidVacio)"

definition reiniciar :: "Proceso \<Rightarrow> Proceso" where
  "reiniciar p =
     p\<lparr>tiempo_restante := duracion p, tiempo_inicio := None, tiempo_fin := None\<rparr>"

definition to_dict :: "Proceso \<Rightarrow> (string \<rightharpoonup> pyval)" where
  "to_dict p =
     [''pid'' \<mapsto> VStr (pid p),
      ''duracion'' \<mapsto> VInt (duracion p),
      ''prioridad'' \<mapsto> VInt (prioridad p),
      ''tiempo_llegada'' \<mapsto> VInt (tiempo_llegada p)]"

text \<open>\<open>data[k]\<close> raises \<open>KeyError\<close> on a missing key; \<open>data.get(k, 0)\<close> does not.\<close>

definition dict_item :: "(string \<rightharpoonup> pyval) \<Rightarrow> string \<Rightarrow> error + pyval" where
  "dict_item data k = (case data k of None \<Rightarrow> Inl (KeyError k) | Some v \<Rightarrow> Inr v)"

definition dict_get :: "(string \<rightharpoonup> pyval) \<Rightarrow> string \<Rightarrow> pyval \<Rightarrow> pyval" where
  "dict_get data k dflt = (case data k of None \<Rightarrow> dflt | Some v \<Rightarrow> v)"

text \<open>
  \<open>from_dict\<close> evaluates the four arguments from left to right, then calls the
  constructor; the first exception wins.
\<close>

definition from_dict ::
  "(string \<Rightarrow> error + int) \<Rightarrow> (string \<rightharpoonup> pyval) \<Rightarrow> error + Proceso" where
  "from_dict int_de_str data =
     (case dict_item data ''pid'' of
        Inl e \<Rightarrow> Inl e
      | Inr p \<Rightarrow>
          (case dict_item data ''duracion'' of
             Inl e \<Rightarrow> Inl e
           | Inr dv \<Rightarrow>
               (case py_int int_de_str dv of
                  Inl e \<Rightarrow> Inl e
                | Inr d \<Rightarrow>
                    (case dict_item data ''prioridad'' of
                       Inl e \<Rightarrow> Inl e
                     | Inr prv \<Rightarrow>
                         (case py_int int_de_str prv of
                            Inl e \<Rightarrow> Inl e
                          | Inr pr \<Rightarrow>
                              (case py_int int_de_str
                                      (dict_get data ''tiempo_llegada'' (VInt 0)) of
                                 Inl e \<Rightarrow> Inl e
                               | Inr a \<Rightarrow>
                                   Proceso_init p (VInt d) (VInt pr) (Some (VInt a))))))))"

text \<open>
  What the constructor establishes: the constraints on the fields that never change
  (\<open>valido\<close>) and the initial simulation state (\<open>estado_inicial\<close>), which \<open>reiniciar\<close>
  restores.
\<close>

definition valido :: "Proceso \<Rightarrow> bool" where
  "valido p = (strip (pid p) \<noteq> [] \<and> 0 < duracion p \<and> 0 \<le> tiempo_llegada p)"

definition estado_inicial :: "Proceso \<Rightarrow> bool" where
  "estado_inicial p =
     (tiempo_restante p = duracion p \<and> tiempo_inicio p = None \<and> tiempo_fin p = None)"

definition recien_creado :: "Proceso \<Rightarrow> bool" where
  "recien_creado p = (valido p \<and> estado_inicial p)"

section \<open>scheduler.py\<close>

type_synonym GanttEntry = "string \<times> int \<times> int"

definition inicio_de :: "GanttEntry \<Rightarrow> int" where
  "inicio_de e = fst (snd e)"

definition fin_de :: "GanttEntry \<Rightarrow> int" where
  "fin_de e = snd (snd e)"

subsection \<open>Publishing the computed times onto the caller's records\<close>

text \<open>
  The last loop of both \<open>planificar\<close> methods: the original at position \<open>i\<close> receives
  the times of \<open>procesos_copia[i]\<close>. The index access raises when out of range.
\<close>

fun publicar :: "Proceso list \<Rightarrow> Proceso list \<Rightarrow> nat \<Rightarrow> error + Proceso list" where
  "publicar [] copia i = Inr []"
| "publicar (original # resto) copia i =
     (if i < length copia
      then (case publicar resto copia (Suc i) of
              Inl e \<Rightarrow> Inl e
            | Inr resto' \<Rightarrow>
                Inr (original\<lparr>tiempo_inicio := tiempo_inicio (copia ! i),
                              tiempo_fin := tiempo_fin (copia ! i),
                              tiempo_restante := 0\<rparr> # resto'))
      else Inl IndexError)"

subsection \<open>FCFSScheduler\<close>

text \<open>
  The \<open>for\<close> loop over the sorted copies, from clock \<open>t\<close>: it returns the copies as the
  loop leaves them and the entries appended to the diagram, in order.
\<close>

fun fcfs_bucle :: "Proceso list \<Rightarrow> int \<Rightarrow> Proceso list \<times> GanttEntry list" where
  "fcfs_bucle [] t = ([], [])"
| "fcfs_bucle (proceso # resto) t =
     (let t1 = (if t < tiempo_llegada proceso then tiempo_llegada proceso else t);
          p1 = (if tiempo_inicio proceso = None
                then proceso\<lparr>tiempo_inicio := Some t1\<rparr> else proceso);
          t_fin = t1 + duracion p1;
          p2 = p1\<lparr>tiempo_fin := Some t_fin, tiempo_restante := 0\<rparr>;
          r = fcfs_bucle resto t_fin
      in (p2 # fst r, (pid p2, t1, t_fin) # snd r))"

text \<open>
  \<open>FCFSScheduler.planificar\<close>: the mutated originals and the diagram. The copies are
  values, so \<open>deepcopy\<close> is the identity; \<open>list.sort(key=...)\<close> is a stable sort, as
  \<open>sort_key\<close> is.
\<close>

definition FCFS_planificar ::
  "Proceso list \<Rightarrow> error + (Proceso list \<times> GanttEntry list)" where
  "FCFS_planificar procesos =
     (if procesos = [] then Inr (procesos, [])
      else let procesos_copia = sort_key tiempo_llegada procesos;
               r = fcfs_bucle procesos_copia 0
           in case publicar procesos (fst r) 0 of
                Inl e \<Rightarrow> Inl e
              | Inr procesos' \<Rightarrow> Inr (procesos', snd r))"

subsection \<open>RoundRobinScheduler\<close>

record RoundRobinScheduler =
  quantum :: int

text \<open>\<open>RoundRobinScheduler.__init__(quantum=4)\<close>: \<open>None\<close> when the argument is omitted.\<close>

definition RoundRobinScheduler_init :: "int option \<Rightarrow> error + RoundRobinScheduler" where
  "RoundRobinScheduler_init quantum_arg =
     (let q = (case quantum_arg of None \<Rightarrow> 4 | Some v \<Rightarrow> v)
      in if q \<le> 0 then Inl QuantumNoPositivo else Inr \<lparr>quantum = q\<rparr>)"

text \<open>
  The state of the \<open>while\<close> loop. \<open>cola\<close> and \<open>procesos_copia\<close> hold the same objects:
  the queue is a list of references, here positions in \<open>procesos_copia\<close>, and a
  mutation of a queued process is an update of \<open>procesos_copia\<close> at its position.
\<close>

record rr_estado =
  cola :: "nat list"
  procesos_copia :: "Proceso list"
  tiempo_actual :: int
  gantt :: "GanttEntry list"

definition rr_inicial :: "Proceso list \<Rightarrow> rr_estado" where
  "rr_inicial procesos =
     \<lparr>cola = [0..<length procesos], procesos_copia = procesos,
      tiempo_actual = 0, gantt = []\<rparr>"

text \<open>One iteration of the loop body (the loop guard keeps the queue non-empty).\<close>

definition rr_paso :: "int \<Rightarrow> rr_estado \<Rightarrow> rr_estado" where
  "rr_paso q s =
     (case cola s of
        [] \<Rightarrow> s
      | i # resto \<Rightarrow>
          (let proceso = procesos_copia s ! i;
               t1 = (if tiempo_actual s < tiempo_llegada proceso
                     then tiempo_llegada proceso else tiempo_actual s);
               p1 = (if tiempo_inicio proceso = None
                     then proceso\<lparr>tiempo_inicio := Some t1\<rparr> else proceso);
               tiempo_ejecucion = min q (tiempo_restante p1);
               t_fin = t1 + tiempo_ejecucion;
               p2 = p1\<lparr>tiempo_restante := tiempo_restante p1 - tiempo_ejecucion\<rparr>
           in if tiempo_restante p2 > 0
              then \<lparr>cola = resto @ [i],
                    procesos_copia = (procesos_copia s)[i := p2],
                    tiempo_actual = t_fin,
                    gantt = gantt s @ [(pid p2, t1, t_fin)]\<rparr>
              else \<lparr>cola = resto,
                    procesos_copia = (procesos_copia s)[i := p2\<lparr>tiempo_fin := Some t_fin\<rparr>],
                    tiempo_actual = t_fin,
                    gantt = gantt s @ [(pid p2, t1, t_fin)]\<rparr>))"

text \<open>\<open>while cola:\<close> The loop may run forever; not returning is \<open>None\<close>.\<close>

partial_function (option) rr_bucle :: "int \<Rightarrow> rr_estado \<Rightarrow> rr_estado option" where
  "rr_bucle q s = (if cola s = [] then Some s else rr_bucle q (rr_paso q s))"

declare rr_bucle.simps [code]

text \<open>
  \<open>RoundRobinScheduler.planificar\<close>: \<open>None\<close> when the loop does not return, otherwise
  the exception raised or the mutated originals with the diagram.
\<close>

definition RR_planificar ::
  "RoundRobinScheduler \<Rightarrow> Proceso list \<Rightarrow>
     (error + (Proceso list \<times> GanttEntry list)) option" where
  "RR_planificar self procesos =
     (if procesos = [] then Some (Inr (procesos, []))
      else (case rr_bucle (quantum self) (rr_inicial procesos) of
              None \<Rightarrow> None
            | Some s \<Rightarrow>
                (case publicar procesos (procesos_copia s) 0 of
                   Inl e \<Rightarrow> Some (Inl e)
                 | Inr procesos' \<Rightarrow> Some (Inr (procesos', gantt s)))))"

section \<open>metrics.py\<close>

record metricas_proceso =
  tiempo_respuesta :: int
  tiempo_espera :: int
  tiempo_retorno :: int
  m_duracion :: int
  m_tiempo_llegada :: int

text \<open>
  An average of the report is the integer 0 or the float that \<open>/\<close> returns. The
  quotient of two integers by \<open>/\<close> is a float, rounded, or \<open>OverflowError\<close> when it is
  too large: the built-in is the parameter \<open>dividir\<close> of \<open>calcular_metricas\<close>, and \<open>'f\<close>
  is the type of floats.
\<close>

datatype 'f numero = Entero int | Flotante 'f

record 'f reporte =
  metricas_individuales :: "string \<rightharpoonup> metricas_proceso"
  tiempo_respuesta_promedio :: "'f numero"
  tiempo_espera_promedio :: "'f numero"
  tiempo_retorno_promedio :: "'f numero"

text \<open>The first loop: the dictionaries \<open>primer_inicio\<close> and \<open>ultimo_fin\<close>.\<close>

fun recorrer_gantt ::
  "GanttEntry list \<Rightarrow> (string \<rightharpoonup> int) \<Rightarrow> (string \<rightharpoonup> int) \<Rightarrow>
     (string \<rightharpoonup> int) \<times> (string \<rightharpoonup> int)" where
  "recorrer_gantt [] primer_inicio ultimo_fin = (primer_inicio, ultimo_fin)"
| "recorrer_gantt (e # resto) primer_inicio ultimo_fin =
     recorrer_gantt resto
       (if primer_inicio (fst e) = None
        then primer_inicio(fst e \<mapsto> fst (snd e)) else primer_inicio)
       (ultimo_fin(fst e \<mapsto> snd (snd e)))"

text \<open>The second loop, over the processes, with the values it accumulates.\<close>

record acumulado =
  individuales :: "string \<rightharpoonup> metricas_proceso"
  tiempos_respuesta :: "int list"
  tiempos_espera :: "int list"
  tiempos_retorno :: "int list"

fun recorrer_procesos ::
  "(string \<rightharpoonup> int) \<Rightarrow> (string \<rightharpoonup> int) \<Rightarrow> Proceso list \<Rightarrow> acumulado \<Rightarrow> acumulado" where
  "recorrer_procesos primer_inicio ultimo_fin [] acc = acc"
| "recorrer_procesos primer_inicio ultimo_fin (proceso # resto) acc =
     (case primer_inicio (pid proceso) of
        None \<Rightarrow> recorrer_procesos primer_inicio ultimo_fin resto acc
      | Some ini \<Rightarrow>
          (case ultimo_fin (pid proceso) of
             None \<Rightarrow> recorrer_procesos primer_inicio ultimo_fin resto acc
           | Some fin \<Rightarrow>
               (let t_respuesta = ini - tiempo_llegada proceso;
                    t_retorno = fin - tiempo_llegada proceso;
                    t_espera = t_retorno - duracion proceso
                in recorrer_procesos primer_inicio ultimo_fin resto
                     \<lparr>individuales = (individuales acc)(pid proceso \<mapsto>
                        \<lparr>tiempo_respuesta = t_respuesta,
                         tiempo_espera = t_espera,
                         tiempo_retorno = t_retorno,
                         m_duracion = duracion proceso,
                         m_tiempo_llegada = tiempo_llegada proceso\<rparr>),
                      tiempos_respuesta = tiempos_respuesta acc @ [t_respuesta],
                      tiempos_espera = tiempos_espera acc @ [t_espera],
                      tiempos_retorno = tiempos_retorno acc @ [t_retorno]\<rparr>)))"

text \<open>\<open>sum(xs) / n if n > 0 else 0\<close> with \<open>n = len(xs)\<close>.\<close>

definition promedio ::
  "(int \<Rightarrow> int \<Rightarrow> error + 'f) \<Rightarrow> nat \<Rightarrow> int list \<Rightarrow> error + 'f numero" where
  "promedio dividir n xs =
     (if n > 0
      then (case dividir (sum_list xs) (int n) of
              Inl e \<Rightarrow> Inl e
            | Inr v \<Rightarrow> Inr (Flotante v))
      else Inr (Entero 0))"

text \<open>
  The three averages are computed in the order of the source, after the two loops; the
  first quotient that raises ends the call.
\<close>

definition calcular_metricas ::
  "(int \<Rightarrow> int \<Rightarrow> error + 'f) \<Rightarrow> Proceso list \<Rightarrow> GanttEntry list \<Rightarrow> error + 'f reporte" where
  "calcular_metricas dividir procesos g =
     (if procesos = [] \<or> g = []
      then Inr \<lparr>metricas_individuales = Map.empty,
                tiempo_respuesta_promedio = Entero 0,
                tiempo_espera_promedio = Entero 0,
                tiempo_retorno_promedio = Entero 0\<rparr>
      else let d = recorrer_gantt g Map.empty Map.empty;
               acc = recorrer_procesos (fst d) (snd d) procesos
                       \<lparr>individuales = Map.empty, tiempos_respuesta = [],
                        tiempos_espera = [], tiempos_retorno = []\<rparr>;
               n = length (tiempos_respuesta acc)
           in case promedio dividir n (tiempos_respuesta acc) of
                Inl e \<Rightarrow> Inl e
              | Inr respuesta_promedio \<Rightarrow>
                  (case promedio dividir n (tiempos_espera acc) of
                     Inl e \<Rightarrow> Inl e
                   | Inr espera_promedio \<Rightarrow>
                       (case promedio dividir n (tiempos_retorno acc) of
                          Inl e \<Rightarrow> Inl e
                        | Inr retorno_promedio \<Rightarrow>
                            Inr \<lparr>metricas_individuales = individuales acc,
                                 tiempo_respuesta_promedio = respuesta_promedio,
                                 tiempo_espera_promedio = espera_promedio,
                                 tiempo_retorno_promedio = retorno_promedio\<rparr>)))"

section \<open>Auxiliary notions for the proofs\<close>

text \<open>
  The queue holds distinct positions of \<open>procesos_copia\<close>, and the list of copies keeps
  its length: the invariant of the Round-Robin loop that every proof below builds on.
\<close>

definition rr_ok :: "nat \<Rightarrow> rr_estado \<Rightarrow> bool" where
  "rr_ok n s =
     (length (procesos_copia s) = n \<and> list_all (\<lambda>i. i < n) (cola s) \<and> distinct (cola s))"

text \<open>The variant of the loop: one unit per queued process plus its remaining time.\<close>

definition medida :: "rr_estado \<Rightarrow> nat" where
  "medida s = (\<Sum>i\<leftarrow>cola s. Suc (nat (tiempo_restante (procesos_copia s ! i))))"

text \<open>What the publication loop writes onto an original, given its copy.\<close>

definition publicado :: "Proceso \<times> Proceso \<Rightarrow> Proceso" where
  "publicado oc =
     (fst oc)\<lparr>tiempo_inicio := tiempo_inicio (snd oc),
              tiempo_fin := tiempo_fin (snd oc), tiempo_restante := 0\<rparr>"

text \<open>
  The conditions on the arguments of the constructor, in the words of the
  specification: \<open>pid_en_blanco\<close> (an empty or blank identifier) and
  \<open>entero_negativo\<close> (a negative integer) are the two that the source widens to
  \<open>\<not> pid_aceptable\<close> (anything but a non-blank string) and
  \<open>\<not> entero_no_negativo\<close> (anything but an integer that is at least 0).
\<close>

definition pid_en_blanco :: "pyval \<Rightarrow> bool" where
  "pid_en_blanco v = (case v of VStr s \<Rightarrow> strip s = [] | _ \<Rightarrow> False)"

definition pid_aceptable :: "pyval \<Rightarrow> bool" where
  "pid_aceptable v = (case v of VStr s \<Rightarrow> strip s \<noteq> [] | _ \<Rightarrow> False)"

definition es_entero :: "pyval \<Rightarrow> bool" where
  "es_entero v = (case v of VInt n \<Rightarrow> True | _ \<Rightarrow> False)"

definition entero_positivo :: "pyval \<Rightarrow> bool" where
  "entero_positivo v = (case v of VInt n \<Rightarrow> 0 < n | _ \<Rightarrow> False)"

definition entero_negativo :: "pyval \<Rightarrow> bool" where
  "entero_negativo v = (case v of VInt n \<Rightarrow> n < 0 | _ \<Rightarrow> False)"

definition entero_no_negativo :: "pyval \<Rightarrow> bool" where
  "entero_no_negativo v = (case v of VInt n \<Rightarrow> 0 \<le> n | _ \<Rightarrow> False)"

text \<open>The arrival the constructor checks: the default 0 when the argument is omitted.\<close>

definition llegada_efectiva :: "pyval option \<Rightarrow> pyval" where
  "llegada_efectiva a = (case a of None \<Rightarrow> VInt 0 | Some v \<Rightarrow> v)"

text \<open>A process as the constructor builds it, for the examples.\<close>

definition nuevo :: "string \<Rightarrow> int \<Rightarrow> int \<Rightarrow> int \<Rightarrow> Proceso" where
  "nuevo x d pr a =
     \<lparr>pid = x, duracion = d, prioridad = pr, tiempo_llegada = a, tiempo_restante = d,
      tiempo_inicio = None, tiempo_fin = None\<rparr>"

text \<open>
  A diagram is chained from clock \<open>t\<close> when every entry starts no earlier than \<open>t\<close>
  and than the end of the entry before it, and ends no earlier than it starts.
\<close>

fun encadenado :: "int \<Rightarrow> GanttEntry list \<Rightarrow> bool" where
  "encadenado t [] = True"
| "encadenado t (e # g) =
     (t \<le> inicio_de e \<and> inicio_de e \<le> fin_de e \<and> encadenado (fin_de e) g)"

definition fin_ultimo :: "int \<Rightarrow> GanttEntry list \<Rightarrow> int" where
  "fin_ultimo t g = (if g = [] then t else fin_de (last g))"

text \<open>The total remaining work of the queued processes.\<close>

definition trabajo_pendiente :: "rr_estado \<Rightarrow> int" where
  "trabajo_pendiente s = (\<Sum>i\<leftarrow>cola s. tiempo_restante (procesos_copia s ! i))"

text \<open>Every queued process still has work to do.\<close>

definition rr_pendientes :: "rr_estado \<Rightarrow> bool" where
  "rr_pendientes s = list_all (\<lambda>i. 0 < tiempo_restante (procesos_copia s ! i)) (cola s)"

text \<open>
  The slices of \<open>r\<close> units of work under quantum \<open>q\<close>: full quanta, then the rest if
  there is one. The lengths of the entries of one process, in order.
\<close>

definition rebanadas :: "int \<Rightarrow> int \<Rightarrow> int list" where
  "rebanadas q r = replicate (nat (r div q)) q @ (if r mod q = 0 then [] else [r mod q])"

definition segmentos_de :: "string \<Rightarrow> GanttEntry list \<Rightarrow> GanttEntry list" where
  "segmentos_de x g = filter (\<lambda>e. fst e = x) g"

definition duraciones_de :: "string \<Rightarrow> GanttEntry list \<Rightarrow> int list" where
  "duraciones_de x g = map (\<lambda>e. fin_de e - inicio_de e) (segmentos_de x g)"

text \<open>
  The diagram built so far is chained from 0, ends no later than the clock, and no
  copy has negative remaining time.
\<close>

definition rr_en_serie :: "rr_estado \<Rightarrow> bool" where
  "rr_en_serie s =
     (encadenado 0 (gantt s) \<and> fin_ultimo 0 (gantt s) \<le> tiempo_actual s
      \<and> list_all (\<lambda>p. 0 \<le> tiempo_restante p) (procesos_copia s))"

text \<open>
  The accounting invariant of the Round-Robin loop for processes \<open>ps\<close> with distinct
  identifiers: identifiers stay in place, remaining times are not negative, the queue
  holds exactly the positions with work left, and for each process the lengths of the
  entries emitted for it so far, followed by the slices of its remaining time, are the
  slices of its duration.
\<close>

definition rr_reparto :: "int \<Rightarrow> Proceso list \<Rightarrow> rr_estado \<Rightarrow> bool" where
  "rr_reparto q ps s =
     (map pid (procesos_copia s) = map pid ps
      \<and> (\<forall>i<length ps.
            0 \<le> tiempo_restante (procesos_copia s ! i)
          \<and> (0 < tiempo_restante (procesos_copia s ! i) \<longleftrightarrow> i \<in> set (cola s))
          \<and> duraciones_de (pid (ps ! i)) (gantt s)
               @ rebanadas q (tiempo_restante (procesos_copia s ! i))
              = rebanadas q (duracion (ps ! i))))"

text \<open>
  The metrics in the words of the specification: the start of the first entry of a
  process in the sequence, the end of its last entry, and the record derived from
  them; the processes that have an entry in the diagram.
\<close>

definition primer_inicio_de :: "string \<Rightarrow> GanttEntry list \<Rightarrow> int" where
  "primer_inicio_de x g = inicio_de (hd (segmentos_de x g))"

definition ultimo_fin_de :: "string \<Rightarrow> GanttEntry list \<Rightarrow> int" where
  "ultimo_fin_de x g = fin_de (last (segmentos_de x g))"

definition metricas_de :: "Proceso \<Rightarrow> GanttEntry list \<Rightarrow> metricas_proceso" where
  "metricas_de p g =
     \<lparr>tiempo_respuesta = primer_inicio_de (pid p) g - tiempo_llegada p,
      tiempo_espera = ultimo_fin_de (pid p) g - tiempo_llegada p - duracion p,
      tiempo_retorno = ultimo_fin_de (pid p) g - tiempo_llegada p,
      m_duracion = duracion p,
      m_tiempo_llegada = tiempo_llegada p\<rparr>"

definition presentes :: "Proceso list \<Rightarrow> GanttEntry list \<Rightarrow> Proceso list" where
  "presentes ps g = filter (\<lambda>p. segmentos_de (pid p) g \<noteq> []) ps"

text \<open>The smallest start and the largest end among the entries of a process.\<close>

definition min_inicio_de :: "string \<Rightarrow> GanttEntry list \<Rightarrow> int" where
  "min_inicio_de x g = Min (inicio_de ` set (segmentos_de x g))"

definition max_fin_de :: "string \<Rightarrow> GanttEntry list \<Rightarrow> int" where
  "max_fin_de x g = Max (fin_de ` set (segmentos_de x g))"

text \<open>
  The same notions over the two dictionaries of \<open>calcular_metricas\<close>, for the proofs
  about its second loop.
\<close>

definition presente_en ::
  "(string \<rightharpoonup> int) \<Rightarrow> (string \<rightharpoonup> int) \<Rightarrow> Proceso \<Rightarrow> bool" where
  "presente_en d1 d2 p = (d1 (pid p) \<noteq> None \<and> d2 (pid p) \<noteq> None)"

definition metricas_segun ::
  "(string \<rightharpoonup> int) \<Rightarrow> (string \<rightharpoonup> int) \<Rightarrow> Proceso \<Rightarrow> metricas_proceso" where
  "metricas_segun d1 d2 p =
     \<lparr>tiempo_respuesta = the (d1 (pid p)) - tiempo_llegada p,
      tiempo_espera = the (d2 (pid p)) - tiempo_llegada p - duracion p,
      tiempo_retorno = the (d2 (pid p)) - tiempo_llegada p,
      m_duracion = duracion p,
      m_tiempo_llegada = tiempo_llegada p\<rparr>"

section \<open>The loops: basic facts\<close>

lemma rr_ok_inicial: "rr_ok (length ps) (rr_inicial ps)"
  by (simp add: rr_ok_def rr_inicial_def list_all_iff)

lemma rr_ok_paso: "rr_ok n s \<Longrightarrow> rr_ok n (rr_paso q s)"
  by (auto simp: rr_ok_def rr_paso_def Let_def list_all_iff split: list.splits)

lemma cola_paso:
  "cola s = i # resto \<Longrightarrow>
   cola (rr_paso q s) =
     (if q < tiempo_restante (procesos_copia s ! i) then resto @ [i] else resto)"
  by (auto simp: rr_paso_def Let_def min_def)

lemma gantt_paso:
  "cola s = i # resto \<Longrightarrow>
   gantt (rr_paso q s) =
     gantt s @ [(pid (procesos_copia s ! i),
                 max (tiempo_actual s) (tiempo_llegada (procesos_copia s ! i)),
                 max (tiempo_actual s) (tiempo_llegada (procesos_copia s ! i))
                   + min q (tiempo_restante (procesos_copia s ! i)))]"
  by (auto simp: rr_paso_def Let_def max_def)

lemma tiempo_actual_paso:
  "cola s = i # resto \<Longrightarrow>
   tiempo_actual (rr_paso q s) =
     max (tiempo_actual s) (tiempo_llegada (procesos_copia s ! i))
       + min q (tiempo_restante (procesos_copia s ! i))"
  by (auto simp: rr_paso_def Let_def max_def)

lemma copia_paso:
  "cola s = i # resto \<Longrightarrow>
   \<exists>p'. procesos_copia (rr_paso q s) = (procesos_copia s)[i := p']
     \<and> pid p' = pid (procesos_copia s ! i)
     \<and> duracion p' = duracion (procesos_copia s ! i)
     \<and> prioridad p' = prioridad (procesos_copia s ! i)
     \<and> tiempo_llegada p' = tiempo_llegada (procesos_copia s ! i)
     \<and> tiempo_restante p' =
         tiempo_restante (procesos_copia s ! i) - min q (tiempo_restante (procesos_copia s ! i))"
  by (auto simp: rr_paso_def Let_def)

lemma sum_list_update_otro:
  "i \<notin> set js \<Longrightarrow> (\<Sum>j\<leftarrow>js. f (xs[i := x] ! j)) = (\<Sum>j\<leftarrow>js. f (xs ! j))"
  by (induction js) auto

lemma medida_paso:
  assumes "0 < q" "rr_ok n s" "cola s \<noteq> []"
  shows "medida (rr_paso q s) < medida s"
proof -
  from assms(3) obtain i resto where c: "cola s = i # resto" by (cases "cola s") auto
  with assms(2) have i: "i < length (procesos_copia s)" "i \<notin> set resto"
    by (auto simp: rr_ok_def)
  from copia_paso [OF c, of q] obtain p' where
    p': "procesos_copia (rr_paso q s) = (procesos_copia s)[i := p']"
        "tiempo_restante p' =
           tiempo_restante (procesos_copia s ! i) - min q (tiempo_restante (procesos_copia s ! i))"
    by blast
  have "(\<Sum>j\<leftarrow>resto. Suc (nat (tiempo_restante ((procesos_copia s)[i := p'] ! j))))
        = (\<Sum>j\<leftarrow>resto. Suc (nat (tiempo_restante (procesos_copia s ! j))))"
    using i(2) by (rule sum_list_update_otro [where f = "\<lambda>x. Suc (nat (tiempo_restante x))"])
  then show ?thesis using assms(1) i
    by (simp add: medida_def cola_paso [OF c] c p')
qed

lemma rr_bucle_regla:
  assumes q: "0 < q"
    and paso: "\<And>s. rr_ok n s \<Longrightarrow> P s \<Longrightarrow> cola s \<noteq> [] \<Longrightarrow> P (rr_paso q s)"
  shows "rr_ok n s \<Longrightarrow> P s \<Longrightarrow> \<exists>s'. rr_bucle q s = Some s' \<and> cola s' = [] \<and> rr_ok n s' \<and> P s'"
proof (induction "medida s" arbitrary: s rule: less_induct)
  case less
  show ?case
  proof (cases "cola s = []")
    case True
    with less.prems show ?thesis by (subst rr_bucle.simps) simp
  next
    case False
    have "medida (rr_paso q s) < medida s" using q less.prems(1) False by (rule medida_paso)
    moreover have "rr_ok n (rr_paso q s)" using less.prems(1) by (rule rr_ok_paso)
    moreover have "P (rr_paso q s)" using less.prems False by (rule paso)
    ultimately obtain s' where "rr_bucle q (rr_paso q s) = Some s'" "cola s' = []" "rr_ok n s'" "P s'"
      using less.hyps by blast
    with False show ?thesis by (subst rr_bucle.simps) simp
  qed
qed


lemma strip_Nil [simp]: "strip [] = []"
  by (simp add: strip_def)

lemma publicar_zip:
  "i + length origs \<le> length copia \<Longrightarrow>
   publicar origs copia i = Inr (map publicado (zip origs (drop i copia)))"
proof (induction origs arbitrary: i)
  case Nil
  then show ?case by simp
next
  case (Cons a origs)
  then have "i < length copia" by simp
  then have "drop i copia = copia ! i # drop (Suc i) copia" by (simp add: Cons_nth_drop_Suc)
  with Cons show ?case by (simp add: publicado_def)
qed

lemma length_fcfs_bucle [simp]:
  "length (fst (fcfs_bucle ps t)) = length ps" "length (snd (fcfs_bucle ps t)) = length ps"
  by (induction ps arbitrary: t) (simp_all add: Let_def)

lemma FCFS_planificar_eq:
  "FCFS_planificar ps =
     Inr (map publicado (zip ps (fst (fcfs_bucle (sort_key tiempo_llegada ps) 0))),
          snd (fcfs_bucle (sort_key tiempo_llegada ps) 0))"
  by (cases "ps = []") (simp_all add: FCFS_planificar_def Let_def publicar_zip)

lemma RR_planificar_regla:
  assumes q: "0 < quantum self"
    and ini: "P (rr_inicial ps)"
    and paso: "\<And>s. rr_ok (length ps) s \<Longrightarrow> P s \<Longrightarrow> cola s \<noteq> [] \<Longrightarrow> P (rr_paso (quantum self) s)"
  shows "\<exists>s'. RR_planificar self ps =
            Some (Inr (map publicado (zip ps (procesos_copia s')), gantt s'))
          \<and> cola s' = [] \<and> rr_ok (length ps) s' \<and> P s'"
proof -
  from rr_bucle_regla [of "quantum self" "length ps" P, OF q paso rr_ok_inicial ini]
  obtain s' where s': "rr_bucle (quantum self) (rr_inicial ps) = Some s'" "cola s' = []"
    "rr_ok (length ps) s'" "P s'" by blast
  show ?thesis
  proof (cases "ps = []")
    case True
    then have "rr_inicial ps = s'" using s'(1)
      by (subst (asm) rr_bucle.simps) (simp add: rr_inicial_def)
    with True s' show ?thesis
      by (auto simp: RR_planificar_def rr_inicial_def intro!: exI [of _ s'])
  next
    case False
    with s' show ?thesis
      by (auto simp: RR_planificar_def rr_ok_def publicar_zip intro!: exI [of _ s'])
  qed
qed

lemma Proceso_init_error:
  "isl (Proceso_init a b c d) \<longleftrightarrow>
     \<not> pid_aceptable a \<or> \<not> entero_positivo b \<or> \<not> es_entero c
       \<or> \<not> entero_no_negativo (llegada_efectiva d)"
  by (auto simp: Proceso_init_def pid_aceptable_def entero_positivo_def es_entero_def
      entero_no_negativo_def llegada_efectiva_def Let_def split: pyval.splits option.splits)

lemma Proceso_init_clase:
  "Proceso_init a b c d =
     (if \<not> pid_aceptable a then Inl PidVacio
      else if \<not> entero_positivo b then Inl DuracionNoPositiva
      else if \<not> es_entero c then Inl PrioridadNoEntera
      else if \<not> entero_no_negativo (llegada_efectiva d) then Inl LlegadaNoValida
      else Inr \<lparr>pid = (case a of VStr s \<Rightarrow> s | _ \<Rightarrow> []),
                duracion = (case b of VInt n \<Rightarrow> n | _ \<Rightarrow> 0),
                prioridad = (case c of VInt n \<Rightarrow> n | _ \<Rightarrow> 0),
                tiempo_llegada = (case llegada_efectiva d of VInt n \<Rightarrow> n | _ \<Rightarrow> 0),
                tiempo_restante = (case b of VInt n \<Rightarrow> n | _ \<Rightarrow> 0),
                tiempo_inicio = None, tiempo_fin = None\<rparr>)"
  by (auto simp: Proceso_init_def pid_aceptable_def entero_positivo_def es_entero_def
      entero_no_negativo_def llegada_efectiva_def Let_def split: pyval.splits option.splits)

section \<open>Construction and validation\<close>

text \<open>
  The processes the schedulers are given: what the constructor returns is valid and in
  the initial state, and \<open>reiniciar\<close> puts a valid process back into it.
\<close>

lemma Proceso_init_recien_creado:
  "Proceso_init a b c d = Inr p \<Longrightarrow> recien_creado p"
  by (auto simp: Proceso_init_def recien_creado_def valido_def estado_inicial_def Let_def
      split: pyval.splits option.splits if_splits)

lemma reiniciar_recien_creado: "valido p \<Longrightarrow> recien_creado (reiniciar p)"
  by (simp add: reiniciar_def recien_creado_def valido_def estado_inicial_def)

text \<open>
  Claim C10. Constructing a \<open>RoundRobinScheduler\<close> without a quantum argument succeeds,
  and the scheduler it yields has quantum 4.
\<close>

theorem quantum_por_defecto:
  "RoundRobinScheduler_init None = Inr \<lparr>quantum = 4\<rparr>"
  by (simp add: RoundRobinScheduler_init_def)

text \<open>
  Claim C9. \<open>to_dict\<close> produces exactly the four keys \<open>pid\<close>, \<open>duracion\<close>,
  \<open>prioridad\<close> and \<open>tiempo_llegada\<close>, whatever the simulation state of the process;
  for a valid process, \<open>from_dict\<close> of that dictionary yields a process with the same
  four values in the initial state (remaining time equal to the duration, no start
  and no finish time); and on a dictionary without the key \<open>tiempo_llegada\<close>,
  \<open>from_dict\<close> behaves as if the key held 0, so a process it yields has arrival 0.
  This holds whatever the built-in \<open>int\<close> returns on strings.
\<close>

theorem ida_y_vuelta_dict:
  "dom (to_dict p) = {''pid'', ''duracion'', ''prioridad'', ''tiempo_llegada''}
   \<and> to_dict p ''pid'' = Some (VStr (pid p))
   \<and> to_dict p ''duracion'' = Some (VInt (duracion p))
   \<and> to_dict p ''prioridad'' = Some (VInt (prioridad p))
   \<and> to_dict p ''tiempo_llegada'' = Some (VInt (tiempo_llegada p))
   \<and> (valido p \<longrightarrow>
        from_dict int_de_str (to_dict p) =
          Inr (p\<lparr>tiempo_restante := duracion p, tiempo_inicio := None, tiempo_fin := None\<rparr>))
   \<and> (data ''tiempo_llegada'' = None \<longrightarrow>
        from_dict int_de_str data = from_dict int_de_str (data(''tiempo_llegada'' \<mapsto> VInt 0))
        \<and> (from_dict int_de_str data = Inr p' \<longrightarrow> tiempo_llegada p' = 0))"
proof -
  have 1: "dom (to_dict p) = {''pid'', ''duracion'', ''prioridad'', ''tiempo_llegada''}"
    by (auto simp: to_dict_def)
  have 2: "from_dict int_de_str (to_dict p) =
          Inr (p\<lparr>tiempo_restante := duracion p, tiempo_inicio := None, tiempo_fin := None\<rparr>)"
    if "valido p"
    using that
    by (auto simp: valido_def from_dict_def to_dict_def dict_item_def dict_get_def py_int_def
        Proceso_init_def)
  have 3: "from_dict int_de_str data = from_dict int_de_str (data(''tiempo_llegada'' \<mapsto> VInt 0))"
    if "data ''tiempo_llegada'' = None"
  proof -
    have a: "dict_item (data(''tiempo_llegada'' \<mapsto> VInt 0)) ''pid'' = dict_item data ''pid''"
      "dict_item (data(''tiempo_llegada'' \<mapsto> VInt 0)) ''duracion'' = dict_item data ''duracion''"
      "dict_item (data(''tiempo_llegada'' \<mapsto> VInt 0)) ''prioridad'' = dict_item data ''prioridad''"
      "dict_get (data(''tiempo_llegada'' \<mapsto> VInt 0)) ''tiempo_llegada'' (VInt 0) =
         dict_get data ''tiempo_llegada'' (VInt 0)"
      using that by (simp_all add: dict_item_def dict_get_def)
    show ?thesis unfolding from_dict_def a ..
  qed
  have 4: "tiempo_llegada p' = 0"
    if "data ''tiempo_llegada'' = None" "from_dict int_de_str data = Inr p'"
    using that
    by (auto simp: from_dict_def dict_get_def py_int_def Proceso_init_def
        split: sum.splits pyval.splits if_splits)
  have 5: "to_dict p ''pid'' = Some (VStr (pid p))"
    "to_dict p ''duracion'' = Some (VInt (duracion p))"
    "to_dict p ''prioridad'' = Some (VInt (prioridad p))"
    "to_dict p ''tiempo_llegada'' = Some (VInt (tiempo_llegada p))"
    by (simp_all add: to_dict_def)
  show ?thesis using 1 2 3 4 5 by blast
qed

text \<open>
  The round trip at a process that has already run, and \<open>from_dict\<close> at a dictionary
  without arrival.
\<close>

theorem ida_y_vuelta_dict_witness:
  "valido ((nuevo ''P1'' 10 1 0)\<lparr>tiempo_restante := 0, tiempo_inicio := Some 0, tiempo_fin := Some 10\<rparr>)
   \<and> from_dict (\<lambda>s. Inl IntValueError) (to_dict ((nuevo ''P1'' 10 1 0)\<lparr>tiempo_restante := 0, tiempo_inicio := Some 0, tiempo_fin := Some 10\<rparr>)) = Inr (nuevo ''P1'' 10 1 0)
   \<and> [''pid'' \<mapsto> VStr ''P3'', ''duracion'' \<mapsto> VInt 8, ''prioridad'' \<mapsto> VInt 1] ''tiempo_llegada'' = None
   \<and> from_dict (\<lambda>s. Inl IntValueError) ([''pid'' \<mapsto> VStr ''P3'', ''duracion'' \<mapsto> VInt 8, ''prioridad'' \<mapsto> VInt 1]) =
       Inr \<lparr>pid = ''P3'', duracion = 8, prioridad = 1, tiempo_llegada = 0,
            tiempo_restante = 8, tiempo_inicio = None, tiempo_fin = None\<rparr>"
  using ida_y_vuelta_dict [of "(nuevo ''P1'' 10 1 0)\<lparr>tiempo_restante := 0, tiempo_inicio := Some 0, tiempo_fin := Some 10\<rparr>"
     "\<lambda>s. Inl IntValueError"
     "[''pid'' \<mapsto> VStr ''P3'', ''duracion'' \<mapsto> VInt 8, ''prioridad'' \<mapsto> VInt 1]"
     "\<lparr>pid = ''P3'', duracion = 8, prioridad = 1, tiempo_llegada = 0,
            tiempo_restante = 8, tiempo_inicio = None, tiempo_fin = None\<rparr>"]
  by (simp add: nuevo_def valido_def strip_def es_espacio_def from_dict_def dict_item_def
      dict_get_def py_int_def Proceso_init_def)

text \<open>
  Claim C7, as stated, makes the constructor raise exactly when the identifier is empty
  or blank, the duration is not a positive integer, the priority is not an integer, or
  the arrival is a negative integer. The source also rejects an arrival that is not an
  integer at all: \<open>Proceso("P1", 5, 1, "3")\<close> raises although no clause of the claim
  holds.
\<close>

theorem validacion_llegada_counterexample:
  "\<not> (isl (Proceso_init (VStr ''P1'') (VInt 5) (VInt 1) (Some (VStr ''3''))) \<longleftrightarrow>
        pid_en_blanco (VStr ''P1'') \<or> \<not> entero_positivo (VInt 5) \<or> \<not> es_entero (VInt 1)
          \<or> entero_negativo (llegada_efectiva (Some (VStr ''3''))))"
  by (simp add: Proceso_init_def pid_en_blanco_def entero_positivo_def es_entero_def
      entero_negativo_def llegada_efectiva_def strip_def es_espacio_def)

text \<open>
  Claim C7, amended. The constructor raises exactly when the identifier is not a
  non-blank string, the duration is not a positive integer, the priority is not an
  integer, or the arrival is not an integer that is at least 0; the error is the one of
  the first check that fails, in this order. The constructor of the Round-Robin
  scheduler raises exactly when the quantum is at most 0. \<open>planificar\<close> of the FCFS
  scheduler returns without raising on every list of processes, and \<open>planificar\<close> of a
  constructed Round-Robin scheduler returns without raising on every list of processes.
\<close>

theorem validacion_en_construccion:
  "(isl (Proceso_init a b c d) \<longleftrightarrow>
      \<not> pid_aceptable a \<or> \<not> entero_positivo b \<or> \<not> es_entero c
        \<or> \<not> entero_no_negativo (llegada_efectiva d))
   \<and> (\<not> pid_aceptable a \<longrightarrow> Proceso_init a b c d = Inl PidVacio)
   \<and> (pid_aceptable a \<and> \<not> entero_positivo b \<longrightarrow>
        Proceso_init a b c d = Inl DuracionNoPositiva)
   \<and> (pid_aceptable a \<and> entero_positivo b \<and> \<not> es_entero c \<longrightarrow>
        Proceso_init a b c d = Inl PrioridadNoEntera)
   \<and> (pid_aceptable a \<and> entero_positivo b \<and> es_entero c
        \<and> \<not> entero_no_negativo (llegada_efectiva d) \<longrightarrow>
        Proceso_init a b c d = Inl LlegadaNoValida)
   \<and> (isl (RoundRobinScheduler_init (Some q)) \<longleftrightarrow> q \<le> 0)
   \<and> (q \<le> 0 \<longrightarrow> RoundRobinScheduler_init (Some q) = Inl QuantumNoPositivo)
   \<and> (\<exists>r. FCFS_planificar ps = Inr r)
   \<and> (RoundRobinScheduler_init qa = Inr self \<longrightarrow>
        (\<exists>r. RR_planificar self ps = Some (Inr r)))"
proof -
  have rr: "\<exists>r. RR_planificar self ps = Some (Inr r)"
    if "RoundRobinScheduler_init qa = Inr self"
  proof -
    from that have "0 < quantum self"
      by (auto simp: RoundRobinScheduler_init_def Let_def split: if_splits option.splits)
    from RR_planificar_regla [of self "\<lambda>s. True" ps, OF this] show ?thesis by blast
  qed
  have fc: "\<exists>r. FCFS_planificar ps = Inr r" by (simp add: FCFS_planificar_eq)
  have q: "(isl (RoundRobinScheduler_init (Some q)) \<longleftrightarrow> q \<le> 0)"
    "q \<le> 0 \<longrightarrow> RoundRobinScheduler_init (Some q) = Inl QuantumNoPositivo"
    by (simp_all add: RoundRobinScheduler_init_def)
  show ?thesis using rr fc q
    by (simp add: Proceso_init_error) (simp add: Proceso_init_clase)
qed

text \<open>
  A rejected priority, an accepted process, an accepted quantum and the run of the
  scheduler built from them.
\<close>

theorem validacion_en_construccion_witness:
  "Proceso_init (VStr ''P1'') (VInt 5) (VStr ''alta'') None = Inl PrioridadNoEntera
   \<and> Proceso_init (VStr ''P1'') (VInt 10) (VInt 1) None =
       Inr \<lparr>pid = ''P1'', duracion = 10, prioridad = 1, tiempo_llegada = 0,
            tiempo_restante = 10, tiempo_inicio = None, tiempo_fin = None\<rparr>
   \<and> RoundRobinScheduler_init (Some 3) = Inr \<lparr>quantum = 3\<rparr>
   \<and> RR_planificar \<lparr>quantum = 3\<rparr>
        [\<lparr>pid = ''P1'', duracion = 10, prioridad = 1, tiempo_llegada = 0,
          tiempo_restante = 10, tiempo_inicio = None, tiempo_fin = None\<rparr>] =
       Some (Inr ([\<lparr>pid = ''P1'', duracion = 10, prioridad = 1, tiempo_llegada = 0,
          tiempo_restante = 0, tiempo_inicio = Some 0, tiempo_fin = Some 10\<rparr>],
          [(''P1'', 0, 3), (''P1'', 3, 6), (''P1'', 6, 9), (''P1'', 9, 10)]))"
  using validacion_en_construccion [of "VStr ''P1''" "VInt 5" "VStr ''alta''" None 3 
      "[\<lparr>pid = ''P1'', duracion = 10, prioridad = 1, tiempo_llegada = 0,
          tiempo_restante = 10, tiempo_inicio = None, tiempo_fin = None\<rparr>]" "Some 3" "\<lparr>quantum = 3\<rparr>"]
  by (simp add: Proceso_init_def RoundRobinScheduler_init_def strip_def es_espacio_def
      RR_planificar_def rr_inicial_def rr_bucle.simps rr_paso_def)

section \<open>First-Come, First-Served\<close>

lemma fcfs_bucle_nth:
  "i < length ps \<Longrightarrow>
   snd (fcfs_bucle ps t) ! i =
     (pid (ps ! i),
      max (if i = 0 then t else fin_de (snd (fcfs_bucle ps t) ! (i - 1))) (tiempo_llegada (ps ! i)),
      max (if i = 0 then t else fin_de (snd (fcfs_bucle ps t) ! (i - 1))) (tiempo_llegada (ps ! i))
        + duracion (ps ! i))"
proof (induction ps arbitrary: t i)
  case Nil
  then show ?case by simp
next
  case (Cons p ps)
  show ?case
  proof (cases i)
    case 0
    then show ?thesis by (simp add: Let_def max_def)
  next
    case (Suc j)
    with Cons.prems have j: "j < length ps" by simp
    show ?thesis
    proof (cases j)
      case 0
      with Suc j Cons.IH [OF j] show ?thesis
        by (simp add: Let_def fin_de_def max_def)
    next
      case (Suc k)
      with \<open>i = Suc j\<close> j Cons.IH [OF j] show ?thesis
        by (simp add: Let_def)
    qed
  qed
qed

lemma fcfs_bucle_duraciones:
  "map (\<lambda>e. (fst e, fin_de e - inicio_de e)) (snd (fcfs_bucle ps t)) =
   map (\<lambda>p. (pid p, duracion p)) ps"
  by (induction ps arbitrary: t) (simp_all add: Let_def fin_de_def inicio_de_def)

text \<open>
  Claim C1. On every list of processes \<open>FCFSScheduler.planificar\<close> returns a diagram
  built from a stable sort of the input by arrival time (sorted, a permutation of the
  input, processes of equal arrival in their input order): the diagram has one entry
  per process; entry \<open>i\<close> belongs to process \<open>i\<close> of the sorted list, starts at the
  later of the process's arrival and the end of entry \<open>i - 1\<close> (the clock, 0 before
  the first entry) and ends one duration later, so that its length is the duration
  of its process. For P1 (duration 5), P2 (duration 3) and P3 (duration 8), all
  arriving at 0, the diagram is (P1, 0, 5), (P2, 5, 8), (P3, 8, 16).
\<close>

theorem fcfs_planificar_correcto:
  "\<exists>procesos' g ordenados.
      FCFS_planificar ps = Inr (procesos', g)
    \<and> sorted (map tiempo_llegada ordenados)
    \<and> mset ordenados = mset ps
    \<and> (\<forall>k. filter (\<lambda>p. tiempo_llegada p = k) ordenados
             = filter (\<lambda>p. tiempo_llegada p = k) ps)
    \<and> length g = length ps
    \<and> (\<forall>i<length ps.
          g ! i =
            (pid (ordenados ! i),
             max (if i = 0 then 0 else fin_de (g ! (i - 1))) (tiempo_llegada (ordenados ! i)),
             max (if i = 0 then 0 else fin_de (g ! (i - 1))) (tiempo_llegada (ordenados ! i))
               + duracion (ordenados ! i)))
    \<and> map (\<lambda>e. (fst e, fin_de e - inicio_de e)) g = map (\<lambda>p. (pid p, duracion p)) ordenados
    \<and> (\<exists>procesos''.
          FCFS_planificar [nuevo ''P1'' 5 pr1 0, nuevo ''P2'' 3 pr2 0, nuevo ''P3'' 8 pr3 0] =
            Inr (procesos'', [(''P1'', 0, 5), (''P2'', 5, 8), (''P3'', 8, 16)]))"
proof -
  let ?o = "sort_key tiempo_llegada ps"
  let ?g = "snd (fcfs_bucle ?o 0)"
  have 1: "FCFS_planificar ps = Inr (map publicado (zip ps (fst (fcfs_bucle ?o 0))), ?g)"
    by (rule FCFS_planificar_eq)
  have 2: "sorted (map tiempo_llegada ?o)" by simp
  have 3: "mset ?o = mset ps" by simp
  have 4: "\<forall>k. filter (\<lambda>p. tiempo_llegada p = k) ?o = filter (\<lambda>p. tiempo_llegada p = k) ps"
    by (simp add: sort_key_stable)
  have 5: "length ?g = length ps" by simp
  have 6: "\<forall>i<length ps.
          ?g ! i =
            (pid (?o ! i),
             max (if i = 0 then 0 else fin_de (?g ! (i - 1))) (tiempo_llegada (?o ! i)),
             max (if i = 0 then 0 else fin_de (?g ! (i - 1))) (tiempo_llegada (?o ! i))
               + duracion (?o ! i))"
  proof (intro allI impI)
    fix i assume "i < length ps"
    then have "i < length ?o" by simp
    from fcfs_bucle_nth [OF this, of 0] show "?g ! i =
            (pid (?o ! i),
             max (if i = 0 then 0 else fin_de (?g ! (i - 1))) (tiempo_llegada (?o ! i)),
             max (if i = 0 then 0 else fin_de (?g ! (i - 1))) (tiempo_llegada (?o ! i))
               + duracion (?o ! i))" .
  qed
  have 7: "map (\<lambda>e. (fst e, fin_de e - inicio_de e)) ?g = map (\<lambda>p. (pid p, duracion p)) ?o"
    by (rule fcfs_bucle_duraciones)
  have 8: "\<exists>procesos''.
          FCFS_planificar [nuevo ''P1'' 5 pr1 0, nuevo ''P2'' 3 pr2 0, nuevo ''P3'' 8 pr3 0] =
            Inr (procesos'', [(''P1'', 0, 5), (''P2'', 5, 8), (''P3'', 8, 16)])"
    by (simp add: FCFS_planificar_def nuevo_def)
  from 1 2 3 4 5 6 7 8 show ?thesis by blast
qed

text \<open>
  Three processes given out of arrival order, two of them arriving together: B runs
  first, then A and C in their input order, A after an idle gap.
\<close>

theorem fcfs_planificar_correcto_witness:
  "FCFS_planificar [nuevo ''A'' 5 1 3, nuevo ''B'' 2 1 0, nuevo ''C'' 4 2 3] =
     Inr ([(nuevo ''A'' 5 1 3)\<lparr>tiempo_restante := 0, tiempo_inicio := Some 0, tiempo_fin := Some 2\<rparr>,
           (nuevo ''B'' 2 1 0)\<lparr>tiempo_restante := 0, tiempo_inicio := Some 3, tiempo_fin := Some 8\<rparr>,
           (nuevo ''C'' 4 2 3)\<lparr>tiempo_restante := 0, tiempo_inicio := Some 8, tiempo_fin := Some 12\<rparr>],
          [(''B'', 0, 2), (''A'', 3, 8), (''C'', 8, 12)])
   \<and> (1::nat) < length [nuevo ''A'' 5 1 3, nuevo ''B'' 2 1 0, nuevo ''C'' 4 2 3]
   \<and> [(''B'', 0, 2), (''A'', 3, 8), (''C'', 8, 12)] ! 1 =
       (''A'', max (fin_de (''B'', 0, 2)) 3, max (fin_de (''B'', 0, 2)) 3 + 5)"
  using fcfs_planificar_correcto [of "[nuevo ''A'' 5 1 3, nuevo ''B'' 2 1 0, nuevo ''C'' 4 2 3]" 1 1 1]
  by (simp add: FCFS_planificar_def nuevo_def fin_de_def)

text \<open>
  Claim C3 says that each original record receives the start and finish time computed
  for that same process. \<open>FCFSScheduler.planificar\<close> sorts \<open>procesos_copia\<close> in place
  and then copies the times of \<open>procesos_copia[i]\<close> onto \<open>procesos[i]\<close>: when the input
  is not in arrival order the positions no longer correspond. With A (duration 5,
  arrival 3) given before B (duration 2, arrival 0), the diagram runs B over 0..2 and A
  over 3..8, yet A is left with start 0 and finish 2, and B with start 3 and finish 8.
\<close>

theorem fcfs_publica_tiempos_de_otro_proceso:
  "FCFS_planificar [nuevo ''A'' 5 1 3, nuevo ''B'' 2 1 0] =
     Inr ([(nuevo ''A'' 5 1 3)\<lparr>tiempo_restante := 0, tiempo_inicio := Some 0,
                                tiempo_fin := Some 2\<rparr>,
           (nuevo ''B'' 2 1 0)\<lparr>tiempo_restante := 0, tiempo_inicio := Some 3,
                                tiempo_fin := Some 8\<rparr>],
          [(''B'', 0, 2), (''A'', 3, 8)])"
  by (simp add: FCFS_planificar_def nuevo_def)

section \<open>Order and exclusivity of the diagram\<close>

lemma encadenado_desde: "encadenado t g \<Longrightarrow> e \<in> set g \<Longrightarrow> t \<le> inicio_de e \<and> inicio_de e \<le> fin_de e"
  by (induction g arbitrary: t) force+

lemma encadenado_append:
  "encadenado t (g @ [e]) \<longleftrightarrow>
     encadenado t g \<and> fin_ultimo t g \<le> inicio_de e \<and> inicio_de e \<le> fin_de e"
  by (induction g arbitrary: t) (auto simp: fin_ultimo_def)

lemma encadenado_sorted: "encadenado t g \<Longrightarrow> sorted (map inicio_de g)"
proof (induction g arbitrary: t)
  case Nil
  then show ?case by simp
next
  case (Cons e g)
  then have "\<forall>x\<in>set g. inicio_de e \<le> inicio_de x"
    using encadenado_desde [of "fin_de e" g] by fastforce
  with Cons.prems Cons.IH [of "fin_de e"] show ?case by simp
qed

lemma encadenado_sin_solape:
  "encadenado t g \<Longrightarrow> i < j \<Longrightarrow> j < length g \<Longrightarrow> fin_de (g ! i) \<le> inicio_de (g ! j)"
proof (induction g arbitrary: t i j)
  case Nil
  then show ?case by simp
next
  case (Cons e g)
  from Cons.prems obtain k where j: "j = Suc k" by (cases j) auto
  with Cons.prems have k: "k < length g" by simp
  show ?case
  proof (cases i)
    case 0
    from Cons.prems(1) have "encadenado (fin_de e) g" by simp
    from encadenado_desde [OF this, of "g ! k"] k 0 j show ?thesis by simp
  next
    case (Suc i')
    with Cons.prems j Cons.IH [of "fin_de e" i' k] show ?thesis by simp
  qed
qed

lemma fcfs_bucle_encadenado:
  "\<forall>p\<in>set ps. 0 \<le> duracion p \<Longrightarrow> encadenado t (snd (fcfs_bucle ps t))"
  by (induction ps arbitrary: t) (simp_all add: Let_def inicio_de_def fin_de_def)

lemma rr_en_serie_paso:
  assumes "0 < q" "rr_en_serie s" "cola s \<noteq> []" "rr_ok n s"
  shows "rr_en_serie (rr_paso q s)"
proof -
  from assms(3) obtain i resto where c: "cola s = i # resto" by (cases "cola s") auto
  with assms(4) have i: "i < length (procesos_copia s)" by (auto simp: rr_ok_def)
  from copia_paso [OF c, of q] obtain p' where
    p': "procesos_copia (rr_paso q s) = (procesos_copia s)[i := p']"
        "tiempo_restante p' =
           tiempo_restante (procesos_copia s ! i) - min q (tiempo_restante (procesos_copia s ! i))"
    by blast
  from assms(2) i have r: "0 \<le> tiempo_restante (procesos_copia s ! i)"
    by (simp add: rr_en_serie_def list_all_length)
  have "list_all (\<lambda>p. 0 \<le> tiempo_restante p) ((procesos_copia s)[i := p'])"
    using assms(2) r p'(2) set_update_subset_insert [of "procesos_copia s" i p']
    by (auto simp: rr_en_serie_def list_all_iff)
  then show ?thesis using assms(1,2) r
    by (auto simp: rr_en_serie_def gantt_paso [OF c] tiempo_actual_paso [OF c] p'(1)
        encadenado_append fin_ultimo_def inicio_de_def fin_de_def split: if_splits)
qed

text \<open>
  Claim C4. For every list of valid processes whose remaining time is not negative
  (as it is after construction or \<open>reiniciar\<close>), in any order of arrival, and every
  valid quantum, both schedulers return a diagram whose start times are in
  non-decreasing order and in which an entry never starts before an earlier entry has
  ended; in particular each entry starts no earlier than the end of the one before it.
\<close>

theorem segmentos_en_orden_y_sin_solape:
  assumes "\<forall>p\<in>set ps. valido p \<and> 0 \<le> tiempo_restante p" and "0 < quantum self"
  shows "\<exists>r1 g1 r2 g2.
      FCFS_planificar ps = Inr (r1, g1)
    \<and> RR_planificar self ps = Some (Inr (r2, g2))
    \<and> sorted (map inicio_de g1)
    \<and> (\<forall>i j. i < j \<and> j < length g1 \<longrightarrow> fin_de (g1 ! i) \<le> inicio_de (g1 ! j))
    \<and> sorted (map inicio_de g2)
    \<and> (\<forall>i j. i < j \<and> j < length g2 \<longrightarrow> fin_de (g2 ! i) \<le> inicio_de (g2 ! j))"
proof -
  let ?g1 = "snd (fcfs_bucle (sort_key tiempo_llegada ps) 0)"
  have "\<forall>p\<in>set (sort_key tiempo_llegada ps). 0 \<le> duracion p"
    using assms(1) by (auto simp: valido_def)
  then have e1: "encadenado 0 ?g1" by (rule fcfs_bucle_encadenado)
  have "rr_en_serie (rr_inicial ps)"
    using assms(1) by (simp add: rr_en_serie_def rr_inicial_def fin_ultimo_def list_all_iff)
  from RR_planificar_regla [of self rr_en_serie ps, OF assms(2) this]
    rr_en_serie_paso [OF assms(2)]
  obtain s' where s': "RR_planificar self ps =
      Some (Inr (map publicado (zip ps (procesos_copia s')), gantt s'))" "rr_en_serie s'"
    by blast
  then have e2: "encadenado 0 (gantt s')" by (simp add: rr_en_serie_def)
  show ?thesis
    using FCFS_planificar_eq [of ps] s'(1) encadenado_sorted [OF e1] encadenado_sorted [OF e2]
      encadenado_sin_solape [OF e1] encadenado_sin_solape [OF e2]
    by blast
qed

text \<open>
  Two processes given out of arrival order: the hypotheses hold, FCFS runs B then A,
  Round-Robin with quantum 2 runs A, B, A, A, and the entries do not overlap.
\<close>

theorem segmentos_en_orden_y_sin_solape_witness:
  "valido (nuevo ''A'' 5 1 3) \<and> 0 \<le> tiempo_restante (nuevo ''A'' 5 1 3)
   \<and> valido (nuevo ''B'' 2 1 0) \<and> 0 \<le> tiempo_restante (nuevo ''B'' 2 1 0)
   \<and> 0 < quantum \<lparr>quantum = 2\<rparr>
   \<and> map_sum id snd (FCFS_planificar [nuevo ''A'' 5 1 3, nuevo ''B'' 2 1 0]) =
       Inr [(''B'', 0, 2), (''A'', 3, 8)]
   \<and> map_option (map_sum id snd)
        (RR_planificar \<lparr>quantum = 2\<rparr> [nuevo ''A'' 5 1 3, nuevo ''B'' 2 1 0]) =
       Some (Inr [(''A'', 3, 5), (''B'', 5, 7), (''A'', 7, 9), (''A'', 9, 10)])
   \<and> sorted (map inicio_de [(''A'', 3, 5), (''B'', 5, 7), (''A'', 7, 9), (''A'', 9, 10)])
   \<and> fin_de ([(''A'', 3, 5), (''B'', 5, 7), (''A'', 7, 9), (''A'', 9, 10)] ! 0)
       \<le> inicio_de ([(''A'', 3, 5), (''B'', 5, 7), (''A'', 7, 9), (''A'', 9, 10)] ! 2)"
  using segmentos_en_orden_y_sin_solape
    [of "[nuevo ''A'' 5 1 3, nuevo ''B'' 2 1 0]" "\<lparr>quantum = 2\<rparr>"]
  by (simp add: nuevo_def valido_def strip_def es_espacio_def inicio_de_def fin_de_def
      FCFS_planificar_def RR_planificar_def rr_inicial_def rr_bucle.simps rr_paso_def)

section \<open>Termination\<close>

lemma rr_pendientes_paso:
  assumes "rr_pendientes s" "cola s \<noteq> []" "rr_ok n s"
  shows "rr_pendientes (rr_paso q s)"
proof -
  from assms(2) obtain i resto where c: "cola s = i # resto" by (cases "cola s") auto
  with assms(3) have i: "i < length (procesos_copia s)" "i \<notin> set resto"
    by (auto simp: rr_ok_def)
  from copia_paso [OF c, of q] obtain p' where
    p': "procesos_copia (rr_paso q s) = (procesos_copia s)[i := p']"
        "tiempo_restante p' =
           tiempo_restante (procesos_copia s ! i) - min q (tiempo_restante (procesos_copia s ! i))"
    by blast
  have "j \<in> set resto \<Longrightarrow> (procesos_copia s)[i := p'] ! j = procesos_copia s ! j" for j
    using i(2) by (cases "i = j") auto
  then show ?thesis using assms(1) i p'(2)
    by (auto simp: rr_pendientes_def cola_paso [OF c] c p'(1) list_all_iff)
qed

lemma trabajo_paso:
  assumes "0 < q" "rr_pendientes s" "cola s \<noteq> []" "rr_ok n s"
  shows "trabajo_pendiente (rr_paso q s) < trabajo_pendiente s"
    and "0 \<le> trabajo_pendiente (rr_paso q s)"
proof -
  from assms(3) obtain i resto where c: "cola s = i # resto" by (cases "cola s") auto
  with assms(4) have i: "i < length (procesos_copia s)" "i \<notin> set resto"
    by (auto simp: rr_ok_def)
  from copia_paso [OF c, of q] obtain p' where
    p': "procesos_copia (rr_paso q s) = (procesos_copia s)[i := p']"
        "tiempo_restante p' =
           tiempo_restante (procesos_copia s ! i) - min q (tiempo_restante (procesos_copia s ! i))"
    by blast
  have eq: "(\<Sum>j\<leftarrow>resto. tiempo_restante ((procesos_copia s)[i := p'] ! j))
        = (\<Sum>j\<leftarrow>resto. tiempo_restante (procesos_copia s ! j))"
    using i(2) by (rule sum_list_update_otro [where f = tiempo_restante])
  from assms(2) have r: "0 < tiempo_restante (procesos_copia s ! i)"
    by (simp add: rr_pendientes_def c)
  from eq r assms(1) i p'(2)
  show "trabajo_pendiente (rr_paso q s) < trabajo_pendiente s"
    by (simp add: trabajo_pendiente_def cola_paso [OF c] c p'(1))
  have "rr_pendientes (rr_paso q s)" using assms(2,3,4) by (rule rr_pendientes_paso)
  then have "\<forall>j\<in>set (cola (rr_paso q s)).
      0 \<le> tiempo_restante (procesos_copia (rr_paso q s) ! j)"
    by (auto simp: rr_pendientes_def list_all_iff intro: less_imp_le)
  then show "0 \<le> trabajo_pendiente (rr_paso q s)"
    unfolding trabajo_pendiente_def by (intro sum_list_nonneg) auto
qed

lemma rr_iterados:
  assumes "list_all recien_creado ps"
  shows "rr_ok (length ps) ((rr_paso q ^^ n) (rr_inicial ps))
       \<and> rr_pendientes ((rr_paso q ^^ n) (rr_inicial ps))"
proof (induction n)
  case 0
  from assms have "rr_pendientes (rr_inicial ps)"
    by (auto simp: rr_pendientes_def rr_inicial_def list_all_iff
        recien_creado_def valido_def estado_inicial_def)
  then show ?case by (simp add: rr_ok_inicial)
next
  case (Suc n)
  show ?case
  proof (cases "cola ((rr_paso q ^^ n) (rr_inicial ps)) = []")
    case True
    then have "rr_paso q ((rr_paso q ^^ n) (rr_inicial ps)) = (rr_paso q ^^ n) (rr_inicial ps)"
      by (simp add: rr_paso_def)
    with Suc show ?thesis by simp
  next
    case False
    from Suc have ok: "rr_ok (length ps) ((rr_paso q ^^ n) (rr_inicial ps))"
      and pe: "rr_pendientes ((rr_paso q ^^ n) (rr_inicial ps))" by simp_all
    from rr_ok_paso [OF ok, of q] rr_pendientes_paso [OF pe False ok, of q]
    show ?thesis by simp
  qed
qed

lemma rr_bucle_iterado:
  assumes "0 < q" "rr_ok n s0"
  shows "\<exists>k. rr_bucle q s0 = Some ((rr_paso q ^^ k) s0)
            \<and> cola ((rr_paso q ^^ k) s0) = []
            \<and> (\<forall>m<k. cola ((rr_paso q ^^ m) s0) \<noteq> [])"
proof -
  let ?P = "\<lambda>s. \<exists>k. s = (rr_paso q ^^ k) s0 \<and> (\<forall>m<k. cola ((rr_paso q ^^ m) s0) \<noteq> [])"
  have ini: "?P s0" by (rule exI [of _ 0]) simp
  have paso: "?P (rr_paso q s)" if "?P s" "cola s \<noteq> []" for s
  proof -
    from that(1) obtain k where k: "s = (rr_paso q ^^ k) s0"
      "\<forall>m<k. cola ((rr_paso q ^^ m) s0) \<noteq> []" by blast
    have "\<forall>m<Suc k. cola ((rr_paso q ^^ m) s0) \<noteq> []"
      using k that(2) by (auto simp: less_Suc_eq)
    with k(1) show ?thesis by (intro exI [of _ "Suc k"]) simp
  qed
  from rr_bucle_regla [of q n ?P s0, OF assms(1) _ assms(2) ini] paso
  obtain s' where "rr_bucle q s0 = Some s'" "cola s' = []" "?P s'" by blast
  then show ?thesis by blast
qed

text \<open>
  Claim C8. For every list of freshly constructed (or reset) valid processes and every
  valid quantum, \<open>RoundRobinScheduler.planificar\<close> returns: the loop stops after a
  finite number \<open>k\<close> of iterations; the total remaining work of the queued processes
  is the sum of the durations at the start, stays at least 0, and strictly decreases
  at every iteration the loop runs. \<open>FCFSScheduler.planificar\<close> returns a diagram with
  one entry per input process, each input process appearing exactly once.
\<close>

theorem planificar_termina:
  assumes "list_all recien_creado ps" and "0 < quantum self"
  shows "(\<exists>r. RR_planificar self ps = Some (Inr r))
    \<and> (\<exists>k. rr_bucle (quantum self) (rr_inicial ps)
              = Some ((rr_paso (quantum self) ^^ k) (rr_inicial ps))
          \<and> (\<forall>m<k. cola ((rr_paso (quantum self) ^^ m) (rr_inicial ps)) \<noteq> []))
    \<and> (\<forall>m. cola ((rr_paso (quantum self) ^^ m) (rr_inicial ps)) \<noteq> [] \<longrightarrow>
          0 \<le> trabajo_pendiente ((rr_paso (quantum self) ^^ Suc m) (rr_inicial ps))
          \<and> trabajo_pendiente ((rr_paso (quantum self) ^^ Suc m) (rr_inicial ps))
              < trabajo_pendiente ((rr_paso (quantum self) ^^ m) (rr_inicial ps)))
    \<and> trabajo_pendiente (rr_inicial ps) = sum_list (map duracion ps)
    \<and> (\<exists>r g. FCFS_planificar ps = Inr (r, g) \<and> length g = length ps
          \<and> mset (map fst g) = mset (map pid ps))"
proof -
  let ?q = "quantum self"
  from RR_planificar_regla [of self "\<lambda>s. True" ps, OF assms(2)]
  have 1: "\<exists>r. RR_planificar self ps = Some (Inr r)" by blast
  from rr_bucle_iterado [OF assms(2) rr_ok_inicial, of ps]
  have 2: "\<exists>k. rr_bucle ?q (rr_inicial ps) = Some ((rr_paso ?q ^^ k) (rr_inicial ps))
          \<and> (\<forall>m<k. cola ((rr_paso ?q ^^ m) (rr_inicial ps)) \<noteq> [])" by blast
  have 3: "0 \<le> trabajo_pendiente ((rr_paso ?q ^^ Suc m) (rr_inicial ps))
          \<and> trabajo_pendiente ((rr_paso ?q ^^ Suc m) (rr_inicial ps))
              < trabajo_pendiente ((rr_paso ?q ^^ m) (rr_inicial ps))"
    if "cola ((rr_paso ?q ^^ m) (rr_inicial ps)) \<noteq> []" for m
    using trabajo_paso [OF assms(2) _ that, of "length ps"] rr_iterados [OF assms(1), where q = ?q and n = m]
    by simp
  have "map (\<lambda>i. tiempo_restante (ps ! i)) [0..<length ps] = map tiempo_restante ps"
    by (rule nth_equalityI) simp_all
  moreover have "map tiempo_restante ps = map duracion ps"
    using assms(1) by (auto simp: list_all_iff recien_creado_def estado_inicial_def)
  ultimately have 4: "trabajo_pendiente (rr_inicial ps) = sum_list (map duracion ps)"
    by (simp add: trabajo_pendiente_def rr_inicial_def)
  have "map fst (snd (fcfs_bucle xs t)) = map pid xs" for xs t
    by (induction xs arbitrary: t) (simp_all add: Let_def)
  then have "mset (map fst (snd (fcfs_bucle (sort_key tiempo_llegada ps) 0))) = mset (map pid ps)"
    by (simp only: mset_map mset_sort)
  then have 5: "\<exists>r g. FCFS_planificar ps = Inr (r, g) \<and> length g = length ps
          \<and> mset (map fst g) = mset (map pid ps)"
    by (simp add: FCFS_planificar_eq)
  from 1 2 3 4 5 show ?thesis by blast
qed

text \<open>
  Two processes with 7 units of work under quantum 2: the run returns, and the first
  iteration leaves 5 units.
\<close>

theorem planificar_termina_witness:
  "list_all recien_creado [nuevo ''A'' 5 1 3, nuevo ''B'' 2 1 0]
   \<and> 0 < quantum \<lparr>quantum = 2\<rparr>
   \<and> map_option (map_sum id snd)
        (RR_planificar \<lparr>quantum = 2\<rparr> [nuevo ''A'' 5 1 3, nuevo ''B'' 2 1 0]) =
       Some (Inr [(''A'', 3, 5), (''B'', 5, 7), (''A'', 7, 9), (''A'', 9, 10)])
   \<and> cola ((rr_paso 2 ^^ 0) (rr_inicial [nuevo ''A'' 5 1 3, nuevo ''B'' 2 1 0])) = [0, 1]
   \<and> trabajo_pendiente ((rr_paso 2 ^^ 0) (rr_inicial [nuevo ''A'' 5 1 3, nuevo ''B'' 2 1 0])) = 7
   \<and> trabajo_pendiente ((rr_paso 2 ^^ Suc 0) (rr_inicial [nuevo ''A'' 5 1 3, nuevo ''B'' 2 1 0])) = 5"
  using planificar_termina [of "[nuevo ''A'' 5 1 3, nuevo ''B'' 2 1 0]" "\<lparr>quantum = 2\<rparr>"]
  by (simp add: nuevo_def recien_creado_def valido_def estado_inicial_def strip_def
      es_espacio_def trabajo_pendiente_def
      RR_planificar_def rr_inicial_def rr_bucle.simps rr_paso_def)

section \<open>Round-Robin: the slices of each process\<close>

lemma rebanadas_0 [simp]: "rebanadas q 0 = []"
  by (simp add: rebanadas_def)

lemma sum_list_rebanadas:
  assumes "0 < q" "0 \<le> r"
  shows "sum_list (rebanadas q r) = r"
proof -
  have n: "0 \<le> r div q" using assms by (simp add: pos_imp_zdiv_nonneg_iff)
  have "sum_list (rebanadas q r) = r div q * q + r mod q"
  proof (cases "r mod q = 0")
    case True
    with n show ?thesis by (simp add: rebanadas_def sum_list_replicate)
  next
    case False
    with n show ?thesis by (simp add: rebanadas_def sum_list_replicate)
  qed
  also have "\<dots> = r" by (rule div_mult_mod_eq)
  finally show ?thesis .
qed


lemma rebanadas_paso:
  assumes "0 < q" "0 < r"
  shows "rebanadas q r = min q r # rebanadas q (r - min q r)"
proof (cases "q < r")
  case True
  with assms have qr: "0 < q" "q \<le> r" by simp_all
  have d: "r div q = (r - q) div q + 1" using qr by (rule div_pos_geq)
  have m: "r mod q = (r - q) mod q" using qr by (rule mod_pos_geq)
  have "0 \<le> (r - q) div q" using True assms by (simp add: pos_imp_zdiv_nonneg_iff)
  then have n: "nat ((r - q) div q + 1) = Suc (nat ((r - q) div q))" by simp
  have "rebanadas q r = replicate (nat ((r - q) div q + 1)) q
          @ (if (r - q) mod q = 0 then [] else [(r - q) mod q])"
    unfolding rebanadas_def d [symmetric] m [symmetric] ..
  also have "\<dots> = q # rebanadas q (r - q)"
    unfolding n rebanadas_def by simp
  finally show ?thesis using True by (simp add: min_def)
next
  case False
  show ?thesis
  proof (cases "r = q")
    case True
    with assms show ?thesis by (simp add: rebanadas_def)
  next
    case False
    with \<open>\<not> q < r\<close> have "r < q" by simp
    with assms show ?thesis by (simp add: rebanadas_def min_def)
  qed
qed


lemma length_rebanadas:
  assumes "0 < q" "0 \<le> r"
  shows "int (length (rebanadas q r)) = \<lceil>real_of_int r / real_of_int q\<rceil>"
proof -
  have "0 \<le> r div q" using assms by (simp add: pos_imp_zdiv_nonneg_iff)
  then have "int (length (rebanadas q r)) = r div q + (if r mod q = 0 then 0 else 1)"
    by (simp add: rebanadas_def)
  also have "\<dots> = - (- r div q)"
    using assms by (simp add: zdiv_zminus1_eq_if)
  finally show ?thesis by (simp only: ceiling_divide_eq_div)
qed

lemma rebanadas_nth:
  assumes "0 < q" "0 \<le> r" "Suc k < length (rebanadas q r)"
  shows "rebanadas q r ! k = q"
proof -
  from assms(3) have "k < nat (r div q)"
    by (simp add: rebanadas_def split: if_splits)
  then show ?thesis by (simp add: rebanadas_def nth_append)
qed

lemma rebanadas_una:
  assumes "0 < r" "r \<le> q"
  shows "rebanadas q r = [r]"
proof -
  from assms have "0 < q" by simp
  from rebanadas_paso [OF this assms(1)] assms show ?thesis by (simp add: min_def)
qed

lemma rr_reparto_inicial:
  assumes "list_all recien_creado ps"
  shows "rr_reparto q ps (rr_inicial ps)"
  using assms
  by (auto simp: rr_reparto_def rr_inicial_def list_all_length recien_creado_def
      valido_def estado_inicial_def duraciones_de_def segmentos_de_def)

lemma rr_reparto_paso:
  assumes q: "0 < q" and d: "distinct (map pid ps)"
    and inv: "rr_reparto q ps s" and ne: "cola s \<noteq> []" and ok: "rr_ok (length ps) s"
  shows "rr_reparto q ps (rr_paso q s)"
proof -
  from ne obtain i resto where c: "cola s = i # resto" by (cases "cola s") auto
  with ok have i: "i < length ps" "i \<notin> set resto" "length (procesos_copia s) = length ps"
    by (auto simp: rr_ok_def)
  let ?r = "tiempo_restante (procesos_copia s ! i)"
  from copia_paso [OF c, of q] obtain p' where
    p': "procesos_copia (rr_paso q s) = (procesos_copia s)[i := p']"
        "pid p' = pid (procesos_copia s ! i)"
        "tiempo_restante p' = ?r - min q ?r"
    by blast
  from inv have pids: "map pid (procesos_copia s) = map pid ps" by (simp add: rr_reparto_def)
  then have pid_i: "pid (procesos_copia s ! i) = pid (ps ! i)"
    using i by (metis nth_map)
  from inv i c have r: "0 < ?r" by (simp add: rr_reparto_def)
  have g: "gantt (rr_paso q s) = gantt s @ [(pid (ps ! i),
                 max (tiempo_actual s) (tiempo_llegada (procesos_copia s ! i)),
                 max (tiempo_actual s) (tiempo_llegada (procesos_copia s ! i)) + min q ?r)]"
    by (simp add: gantt_paso [OF c] pid_i)
  have 1: "map pid (procesos_copia (rr_paso q s)) = map pid ps"
    using pids i by (simp add: p' map_update) (metis list_update_id nth_map)
  have 2: "0 \<le> tiempo_restante (procesos_copia (rr_paso q s) ! j)
          \<and> (0 < tiempo_restante (procesos_copia (rr_paso q s) ! j) \<longleftrightarrow> j \<in> set (cola (rr_paso q s)))
          \<and> duraciones_de (pid (ps ! j)) (gantt (rr_paso q s))
               @ rebanadas q (tiempo_restante (procesos_copia (rr_paso q s) ! j))
              = rebanadas q (duracion (ps ! j))" if j: "j < length ps" for j
  proof (cases "j = i")
    case True
    from inv i have old: "duraciones_de (pid (ps ! i)) (gantt s) @ rebanadas q ?r
        = rebanadas q (duracion (ps ! i))" by (simp add: rr_reparto_def)
    have "duraciones_de (pid (ps ! i)) (gantt (rr_paso q s))
        = duraciones_de (pid (ps ! i)) (gantt s) @ [min q ?r]"
      by (simp add: g duraciones_de_def segmentos_de_def inicio_de_def fin_de_def)
    with old rebanadas_paso [OF q r] True i q r show ?thesis
      by (auto simp: p' cola_paso [OF c] min_def)
  next
    case False
    from inv j have old: "0 \<le> tiempo_restante (procesos_copia s ! j)"
      "0 < tiempo_restante (procesos_copia s ! j) \<longleftrightarrow> j \<in> set (cola s)"
      "duraciones_de (pid (ps ! j)) (gantt s)
         @ rebanadas q (tiempo_restante (procesos_copia s ! j)) = rebanadas q (duracion (ps ! j))"
      by (simp_all add: rr_reparto_def)
    from d False i j have "pid (ps ! i) \<noteq> pid (ps ! j)"
      by (metis length_map nth_eq_iff_index_eq nth_map)
    then have "duraciones_de (pid (ps ! j)) (gantt (rr_paso q s))
        = duraciones_de (pid (ps ! j)) (gantt s)"
      by (simp add: g duraciones_de_def segmentos_de_def)
    with old False show ?thesis
      by (auto simp: p' cola_paso [OF c] c)
  qed
  from 1 2 show ?thesis unfolding rr_reparto_def by blast
qed

lemma rr_reparto_final:
  assumes "rr_reparto q ps s" "cola s = []" "p \<in> set ps"
  shows "duraciones_de (pid p) (gantt s) = rebanadas q (duracion p)"
proof -
  from assms(3) obtain i where i: "i < length ps" "ps ! i = p"
    by (auto simp: in_set_conv_nth)
  with assms(1,2) have "tiempo_restante (procesos_copia s ! i) = 0"
    by (auto simp: rr_reparto_def)
  with assms(1) i show ?thesis by (auto simp: rr_reparto_def)
qed

text \<open>
  Claim C2. The queue starts with all processes in input order. One iteration with
  the queue \<open>i # resto\<close> appends the entry of the head process from the later of the
  clock and its arrival, of length \<open>run = min(q, remaining)\<close>, moves the clock to the
  entry's end, decrements the remaining time of the head by \<open>run\<close>, and leaves the
  queue \<open>resto @ [i]\<close> if remaining time is left and \<open>resto\<close> otherwise. For every
  list of freshly constructed valid processes with distinct identifiers and every
  valid quantum \<open>q\<close>, the run returns, and the entries of each process have, in
  order, the lengths of the slices of its duration: their number is
  \<open>ceil(duracion / q)\<close>, every entry but the last has length \<open>q\<close>, the lengths add up
  to the duration, and a process with duration at most \<open>q\<close> has a single entry of its
  whole duration. A single process P1 of duration 10 under quantum 3 yields
  (P1, 0, 3), (P1, 3, 6), (P1, 6, 9), (P1, 9, 10).
\<close>

theorem round_robin_rebanadas:
  assumes "list_all recien_creado ps" and "distinct (map pid ps)" and "0 < quantum self"
  shows "\<exists>procesos' g.
      RR_planificar self ps = Some (Inr (procesos', g))
    \<and> (\<forall>p\<in>set ps.
          duraciones_de (pid p) g = rebanadas (quantum self) (duracion p)
        \<and> int (length (segmentos_de (pid p) g))
            = \<lceil>real_of_int (duracion p) / real_of_int (quantum self)\<rceil>
        \<and> (\<forall>k. Suc k < length (segmentos_de (pid p) g) \<longrightarrow>
              duraciones_de (pid p) g ! k = quantum self)
        \<and> sum_list (duraciones_de (pid p) g) = duracion p
        \<and> (duracion p \<le> quantum self \<longrightarrow> duraciones_de (pid p) g = [duracion p]))
    \<and> cola (rr_inicial ps) = [0..<length ps]
    \<and> (\<forall>s i resto. cola s = i # resto \<longrightarrow>
          gantt (rr_paso (quantum self) s) =
            gantt s @ [(pid (procesos_copia s ! i),
                 max (tiempo_actual s) (tiempo_llegada (procesos_copia s ! i)),
                 max (tiempo_actual s) (tiempo_llegada (procesos_copia s ! i))
                   + min (quantum self) (tiempo_restante (procesos_copia s ! i)))]
        \<and> tiempo_actual (rr_paso (quantum self) s) =
            max (tiempo_actual s) (tiempo_llegada (procesos_copia s ! i))
              + min (quantum self) (tiempo_restante (procesos_copia s ! i))
        \<and> (i < length (procesos_copia s) \<longrightarrow>
             tiempo_restante (procesos_copia (rr_paso (quantum self) s) ! i) =
               tiempo_restante (procesos_copia s ! i)
                 - min (quantum self) (tiempo_restante (procesos_copia s ! i)))
        \<and> cola (rr_paso (quantum self) s) =
            (if 0 < tiempo_restante (procesos_copia s ! i)
                    - min (quantum self) (tiempo_restante (procesos_copia s ! i))
             then resto @ [i] else resto))
    \<and> (\<exists>procesos''.
          RR_planificar \<lparr>quantum = 3\<rparr> [nuevo ''P1'' 10 pr 0] =
            Some (Inr (procesos'', [(''P1'', 0, 3), (''P1'', 3, 6), (''P1'', 6, 9), (''P1'', 9, 10)])))"
proof -
  let ?q = "quantum self"
  from RR_planificar_regla [of self "rr_reparto ?q ps" ps, OF assms(3)
      rr_reparto_inicial [OF assms(1)]] rr_reparto_paso [OF assms(3,2)]
  obtain s' where s': "RR_planificar self ps =
      Some (Inr (map publicado (zip ps (procesos_copia s')), gantt s'))"
      "cola s' = []" "rr_reparto ?q ps s'"
    by blast
  have per: "duraciones_de (pid p) (gantt s') = rebanadas ?q (duracion p)
        \<and> int (length (segmentos_de (pid p) (gantt s')))
            = \<lceil>real_of_int (duracion p) / real_of_int ?q\<rceil>
        \<and> (\<forall>k. Suc k < length (segmentos_de (pid p) (gantt s')) \<longrightarrow>
              duraciones_de (pid p) (gantt s') ! k = ?q)
        \<and> sum_list (duraciones_de (pid p) (gantt s')) = duracion p
        \<and> (duracion p \<le> ?q \<longrightarrow> duraciones_de (pid p) (gantt s') = [duracion p])"
    if p: "p \<in> set ps" for p
  proof -
    from assms(1) p have d: "0 < duracion p"
      by (auto simp: list_all_iff recien_creado_def valido_def)
    then have d0: "0 \<le> duracion p" by simp
    have e: "duraciones_de (pid p) (gantt s') = rebanadas ?q (duracion p)"
      using s'(3,2) p by (rule rr_reparto_final)
    have l: "length (segmentos_de (pid p) (gantt s')) = length (rebanadas ?q (duracion p))"
    proof -
      have "length (segmentos_de (pid p) (gantt s')) = length (duraciones_de (pid p) (gantt s'))"
        by (simp add: duraciones_de_def)
      with e show ?thesis by simp
    qed
    show ?thesis
      using e l length_rebanadas [OF assms(3) d0] rebanadas_nth [OF assms(3) d0]
        sum_list_rebanadas [OF assms(3) d0] rebanadas_una [OF d]
      by simp
  qed
  have paso: "gantt (rr_paso ?q s) =
            gantt s @ [(pid (procesos_copia s ! i),
                 max (tiempo_actual s) (tiempo_llegada (procesos_copia s ! i)),
                 max (tiempo_actual s) (tiempo_llegada (procesos_copia s ! i))
                   + min ?q (tiempo_restante (procesos_copia s ! i)))]
        \<and> tiempo_actual (rr_paso ?q s) =
            max (tiempo_actual s) (tiempo_llegada (procesos_copia s ! i))
              + min ?q (tiempo_restante (procesos_copia s ! i))
        \<and> (i < length (procesos_copia s) \<longrightarrow>
             tiempo_restante (procesos_copia (rr_paso ?q s) ! i) =
               tiempo_restante (procesos_copia s ! i)
                 - min ?q (tiempo_restante (procesos_copia s ! i)))
        \<and> cola (rr_paso ?q s) =
            (if 0 < tiempo_restante (procesos_copia s ! i)
                    - min ?q (tiempo_restante (procesos_copia s ! i))
             then resto @ [i] else resto)"
    if c: "cola s = i # resto" for s i resto
  proof -
    from copia_paso [OF c, of ?q] have "i < length (procesos_copia s) \<longrightarrow>
             tiempo_restante (procesos_copia (rr_paso ?q s) ! i) =
               tiempo_restante (procesos_copia s ! i)
                 - min ?q (tiempo_restante (procesos_copia s ! i))"
      by auto
    then show ?thesis
      by (auto simp: gantt_paso [OF c] tiempo_actual_paso [OF c] cola_paso [OF c] min_def)
  qed
  have ej: "\<exists>procesos''.
          RR_planificar \<lparr>quantum = 3\<rparr> [nuevo ''P1'' 10 pr 0] =
            Some (Inr (procesos'', [(''P1'', 0, 3), (''P1'', 3, 6), (''P1'', 6, 9), (''P1'', 9, 10)]))"
    by (simp add: RR_planificar_def rr_inicial_def rr_bucle.simps rr_paso_def nuevo_def)
  have ini: "cola (rr_inicial ps) = [0..<length ps]" by (simp add: rr_inicial_def)
  from s'(1) per paso ej ini show ?thesis by blast
qed

text \<open>
  Two processes under quantum 2: A, of duration 5, has three entries of lengths 2, 2
  and 1; B, of duration 2, has one.
\<close>

theorem round_robin_rebanadas_witness:
  "list_all recien_creado [nuevo ''A'' 5 1 3, nuevo ''B'' 2 1 0]
   \<and> distinct (map pid [nuevo ''A'' 5 1 3, nuevo ''B'' 2 1 0])
   \<and> 0 < quantum \<lparr>quantum = 2\<rparr>
   \<and> map_option (map_sum id snd)
        (RR_planificar \<lparr>quantum = 2\<rparr> [nuevo ''A'' 5 1 3, nuevo ''B'' 2 1 0]) =
       Some (Inr [(''A'', 3, 5), (''B'', 5, 7), (''A'', 7, 9), (''A'', 9, 10)])
   \<and> duraciones_de ''A'' [(''A'', 3, 5), (''B'', 5, 7), (''A'', 7, 9), (''A'', 9, 10)]
       = [2, 2, 1]
   \<and> int (length (segmentos_de ''A''
        [(''A'', 3, 5), (''B'', 5, 7), (''A'', 7, 9), (''A'', 9, 10)]))
       = \<lceil>real_of_int 5 / real_of_int 2\<rceil>
   \<and> duraciones_de ''B'' [(''A'', 3, 5), (''B'', 5, 7), (''A'', 7, 9), (''A'', 9, 10)]
       = [2]"
  using round_robin_rebanadas
    [of "[nuevo ''A'' 5 1 3, nuevo ''B'' 2 1 0]" "\<lparr>quantum = 2\<rparr>" 1]
  by (simp add: nuevo_def recien_creado_def valido_def estado_inicial_def strip_def
      es_espacio_def duraciones_de_def segmentos_de_def inicio_de_def fin_de_def
      RR_planificar_def rr_inicial_def rr_bucle.simps rr_paso_def)

section \<open>Round-Robin with a large quantum\<close>

lemma fin_ultimo_Cons: "fin_ultimo t (e # g) = fin_ultimo (fin_de e) g"
  by (simp add: fin_ultimo_def)

lemma rr_paso_sin_expropiacion:
  assumes "recien_creado p" "duracion p \<le> q"
  shows "rr_paso q \<lparr>cola = [length hechos..<length hechos + Suc (length resto)],
            procesos_copia = hechos @ p # resto, tiempo_actual = t, gantt = g\<rparr> =
         \<lparr>cola = [length (hechos @ [hd (fst (fcfs_bucle [p] t))])
                   ..<length (hechos @ [hd (fst (fcfs_bucle [p] t))]) + length resto],
          procesos_copia = (hechos @ [hd (fst (fcfs_bucle [p] t))]) @ resto,
          tiempo_actual = max t (tiempo_llegada p) + duracion p,
          gantt = g @ [(pid p, max t (tiempo_llegada p), max t (tiempo_llegada p) + duracion p)]\<rparr>"
proof -
  have c: "[length hechos..<length hechos + Suc (length resto)]
      = length hechos # [Suc (length hechos)..<length hechos + Suc (length resto)]"
    by (rule upt_conv_Cons) simp
  from assms show ?thesis
    unfolding rr_paso_def c
    by (simp add: recien_creado_def valido_def estado_inicial_def Let_def max_def)
qed

lemma rr_bucle_sin_expropiacion:
  assumes "list_all (\<lambda>p. recien_creado p \<and> duracion p \<le> q) pend"
  shows "rr_bucle q \<lparr>cola = [length hechos..<length hechos + length pend],
            procesos_copia = hechos @ pend, tiempo_actual = t, gantt = g\<rparr> =
         Some \<lparr>cola = [], procesos_copia = hechos @ fst (fcfs_bucle pend t),
            tiempo_actual = fin_ultimo t (snd (fcfs_bucle pend t)),
            gantt = g @ snd (fcfs_bucle pend t)\<rparr>"
  using assms
proof (induction pend arbitrary: hechos t g)
  case Nil
  show ?case by (subst rr_bucle.simps) (simp add: fin_ultimo_def)
next
  case (Cons p resto)
  then have p: "recien_creado p" "duracion p \<le> q"
    and r: "list_all (\<lambda>p. recien_creado p \<and> duracion p \<le> q) resto" by simp_all
  let ?p' = "hd (fst (fcfs_bucle [p] t))"
  let ?t' = "max t (tiempo_llegada p) + duracion p"
  have f: "fcfs_bucle (p # resto) t =
      (?p' # fst (fcfs_bucle resto ?t'),
       (pid p, max t (tiempo_llegada p), ?t') # snd (fcfs_bucle resto ?t'))"
    by (simp add: Let_def max_def)
  have "rr_bucle q \<lparr>cola = [length hechos..<length hechos + length (p # resto)],
            procesos_copia = hechos @ p # resto, tiempo_actual = t, gantt = g\<rparr>
      = rr_bucle q (rr_paso q \<lparr>cola = [length hechos..<length hechos + Suc (length resto)],
            procesos_copia = hechos @ p # resto, tiempo_actual = t, gantt = g\<rparr>)"
    by (subst rr_bucle.simps) simp
  also have "\<dots> = Some \<lparr>cola = [], procesos_copia = (hechos @ [?p']) @ fst (fcfs_bucle resto ?t'),
            tiempo_actual = fin_ultimo ?t' (snd (fcfs_bucle resto ?t')),
            gantt = (g @ [(pid p, max t (tiempo_llegada p), ?t')]) @ snd (fcfs_bucle resto ?t')\<rparr>"
    unfolding rr_paso_sin_expropiacion [OF p] by (rule Cons.IH [OF r])
  also have "\<dots> = Some \<lparr>cola = [], procesos_copia = hechos @ fst (fcfs_bucle (p # resto) t),
            tiempo_actual = fin_ultimo t (snd (fcfs_bucle (p # resto) t)),
            gantt = g @ snd (fcfs_bucle (p # resto) t)\<rparr>"
    unfolding f by (simp add: fin_ultimo_Cons fin_de_def)
  finally show ?case .
qed

text \<open>
  Claim C6, as stated, makes Round-Robin with a quantum of at least the largest
  duration return the diagram of FCFS on every list of valid processes. FCFS sorts the
  processes by arrival; Round-Robin takes them in input order. With A (duration 5,
  arrival 3) given before B (duration 2, arrival 0) and quantum 20, FCFS runs B then A
  and Round-Robin runs A then B.
\<close>

theorem rr_quantum_grande_counterexample:
  "list_all recien_creado [nuevo ''A'' 5 1 3, nuevo ''B'' 2 1 0]
   \<and> list_all (\<lambda>p. duracion p \<le> quantum \<lparr>quantum = 20\<rparr>) [nuevo ''A'' 5 1 3, nuevo ''B'' 2 1 0]
   \<and> map_sum id snd (FCFS_planificar [nuevo ''A'' 5 1 3, nuevo ''B'' 2 1 0])
       = Inr [(''B'', 0, 2), (''A'', 3, 8)]
   \<and> map_option (map_sum id snd)
        (RR_planificar \<lparr>quantum = 20\<rparr> [nuevo ''A'' 5 1 3, nuevo ''B'' 2 1 0])
       = Some (Inr [(''A'', 3, 8), (''B'', 8, 10)])
   \<and> map_option (map_sum id snd)
        (RR_planificar \<lparr>quantum = 20\<rparr> [nuevo ''A'' 5 1 3, nuevo ''B'' 2 1 0])
       \<noteq> Some (map_sum id snd (FCFS_planificar [nuevo ''A'' 5 1 3, nuevo ''B'' 2 1 0]))"
  by (simp add: nuevo_def recien_creado_def valido_def estado_inicial_def strip_def
      es_espacio_def FCFS_planificar_def
      RR_planificar_def rr_inicial_def rr_bucle.simps rr_paso_def)

text \<open>
  Claim C6, amended. For every list of freshly constructed valid processes given in
  non-decreasing order of arrival (in particular when all arrive together), if the
  quantum is at least the duration of every process, then
  \<open>RoundRobinScheduler.planificar\<close> returns what \<open>FCFSScheduler.planificar\<close> returns:
  the same diagram, one entry of full duration per process in the same order, and the
  same times published on the originals.
\<close>

theorem rr_quantum_grande_igual_a_fcfs:
  assumes "list_all recien_creado ps"
    and "sorted (map tiempo_llegada ps)"
    and "\<forall>p\<in>set ps. duracion p \<le> quantum self"
  shows "RR_planificar self ps = Some (FCFS_planificar ps)"
proof (cases "ps = []")
  case True
  then show ?thesis by (simp add: RR_planificar_def FCFS_planificar_def)
next
  case False
  from assms(1,3) have "list_all (\<lambda>p. recien_creado p \<and> duracion p \<le> quantum self) ps"
    by (simp add: list_all_iff)
  from rr_bucle_sin_expropiacion [OF this, of "[]" 0 "[]"]
  have "rr_bucle (quantum self) (rr_inicial ps) =
         Some \<lparr>cola = [], procesos_copia = fst (fcfs_bucle ps 0),
            tiempo_actual = fin_ultimo 0 (snd (fcfs_bucle ps 0)),
            gantt = snd (fcfs_bucle ps 0)\<rparr>"
    by (simp add: rr_inicial_def)
  with False assms(2) show ?thesis
    by (simp add: RR_planificar_def FCFS_planificar_def sort_key_id_if_sorted Let_def
        publicar_zip)
qed

text \<open>Three processes in arrival order under quantum 8, the largest duration.\<close>

theorem rr_quantum_grande_igual_a_fcfs_witness:
  "list_all recien_creado [nuevo ''P1'' 5 1 0, nuevo ''P2'' 3 2 0, nuevo ''P3'' 8 1 4]
   \<and> sorted (map tiempo_llegada [nuevo ''P1'' 5 1 0, nuevo ''P2'' 3 2 0, nuevo ''P3'' 8 1 4])
   \<and> list_all (\<lambda>p. duracion p \<le> quantum \<lparr>quantum = 8\<rparr>)
        [nuevo ''P1'' 5 1 0, nuevo ''P2'' 3 2 0, nuevo ''P3'' 8 1 4]
   \<and> RR_planificar \<lparr>quantum = 8\<rparr> [nuevo ''P1'' 5 1 0, nuevo ''P2'' 3 2 0, nuevo ''P3'' 8 1 4]
       = Some (FCFS_planificar [nuevo ''P1'' 5 1 0, nuevo ''P2'' 3 2 0, nuevo ''P3'' 8 1 4])
   \<and> map_sum id snd (FCFS_planificar [nuevo ''P1'' 5 1 0, nuevo ''P2'' 3 2 0, nuevo ''P3'' 8 1 4])
       = Inr [(''P1'', 0, 5), (''P2'', 5, 8), (''P3'', 8, 16)]"
  using rr_quantum_grande_igual_a_fcfs
    [of "[nuevo ''P1'' 5 1 0, nuevo ''P2'' 3 2 0, nuevo ''P3'' 8 1 4]" "\<lparr>quantum = 8\<rparr>"]
  by (simp add: nuevo_def recien_creado_def valido_def estado_inicial_def strip_def
      es_espacio_def FCFS_planificar_def)

section \<open>Metrics\<close>

lemma find_append_caso:
  "find P (xs @ ys) = (case find P xs of None \<Rightarrow> find P ys | Some x \<Rightarrow> Some x)"
  by (induction xs) auto

lemma recorrer_gantt_primer:
  "fst (recorrer_gantt g d1 d2) x =
     (case d1 x of
        Some v \<Rightarrow> Some v
      | None \<Rightarrow> if segmentos_de x g = [] then None else Some (primer_inicio_de x g))"
proof (induction g arbitrary: d1 d2)
  case Nil
  show ?case by (simp add: segmentos_de_def split: option.splits)
next
  case (Cons e g)
  show ?case
    by (simp add: Cons.IH segmentos_de_def primer_inicio_de_def inicio_de_def
        split: option.splits)
qed

lemma recorrer_gantt_ultimo:
  "snd (recorrer_gantt g d1 d2) x =
     (if segmentos_de x g = [] then d2 x else Some (ultimo_fin_de x g))"
proof (induction g arbitrary: d1 d2)
  case Nil
  show ?case by (simp add: segmentos_de_def)
next
  case (Cons e g)
  show ?case
    by (simp add: Cons.IH segmentos_de_def ultimo_fin_de_def fin_de_def)
qed

lemma recorrer_procesos_listas:
  "tiempos_respuesta (recorrer_procesos d1 d2 ps acc) =
     tiempos_respuesta acc
       @ map (\<lambda>p. tiempo_respuesta (metricas_segun d1 d2 p)) (filter (presente_en d1 d2) ps)"
  "tiempos_espera (recorrer_procesos d1 d2 ps acc) =
     tiempos_espera acc
       @ map (\<lambda>p. tiempo_espera (metricas_segun d1 d2 p)) (filter (presente_en d1 d2) ps)"
  "tiempos_retorno (recorrer_procesos d1 d2 ps acc) =
     tiempos_retorno acc
       @ map (\<lambda>p. tiempo_retorno (metricas_segun d1 d2 p)) (filter (presente_en d1 d2) ps)"
  by (induction ps arbitrary: acc;
      simp add: presente_en_def metricas_segun_def Let_def split: option.splits)+

lemma recorrer_procesos_individuales:
  "individuales (recorrer_procesos d1 d2 ps acc) x =
     (case find (\<lambda>p. pid p = x \<and> presente_en d1 d2 p) (rev ps) of
        None \<Rightarrow> individuales acc x
      | Some p \<Rightarrow> Some (metricas_segun d1 d2 p))"
proof (induction ps arbitrary: acc)
  case Nil
  show ?case by simp
next
  case (Cons p ps)
  show ?case
    by (auto simp: Cons.IH find_append_caso presente_en_def metricas_segun_def Let_def
        split: option.splits)
qed

lemma sorted_hd_Min:
  assumes "sorted (map f xs)" "xs \<noteq> []"
  shows "f (hd xs) = Min (f ` set xs)"
proof -
  from assms obtain y ys where xs: "xs = y # ys" by (cases xs) auto
  with assms(1) have "\<forall>z\<in>set xs. f y \<le> f z" by auto
  then show ?thesis unfolding xs
    by (intro Min_eqI [symmetric]) auto
qed

lemma sorted_last_Max:
  assumes "sorted (map f xs)" "xs \<noteq> []"
  shows "f (last xs) = Max (f ` set xs)"
proof -
  from assms(2) obtain ys y where xs: "xs = ys @ [y]" by (cases xs rule: rev_cases) auto
  with assms(1) have "\<forall>z\<in>set xs. f z \<le> f y" by (auto simp: sorted_append)
  then show ?thesis unfolding xs
    by (intro Max_eqI [symmetric]) auto
qed

lemma sorted_map_filter: "sorted (map f xs) \<Longrightarrow> sorted (map f (filter P xs))"
  by (induction xs) auto

lemma primer_inicio_min:
  assumes "sorted (map inicio_de g)" "segmentos_de x g \<noteq> []"
  shows "primer_inicio_de x g = min_inicio_de x g"
  unfolding primer_inicio_de_def min_inicio_de_def
  using assms by (intro sorted_hd_Min) (simp_all add: segmentos_de_def sorted_map_filter)

lemma ultimo_fin_max:
  assumes "sorted (map fin_de g)" "segmentos_de x g \<noteq> []"
  shows "ultimo_fin_de x g = max_fin_de x g"
  unfolding ultimo_fin_de_def max_fin_de_def
  using assms by (intro sorted_last_Max) (simp_all add: segmentos_de_def sorted_map_filter)

lemma diccionarios_de_gantt:
  "fst (recorrer_gantt g Map.empty Map.empty) x =
     (if segmentos_de x g = [] then None else Some (primer_inicio_de x g))"
  "snd (recorrer_gantt g Map.empty Map.empty) x =
     (if segmentos_de x g = [] then None else Some (ultimo_fin_de x g))"
  by (simp_all add: recorrer_gantt_primer recorrer_gantt_ultimo)

lemma presente_en_gantt:
  "presente_en (fst (recorrer_gantt g Map.empty Map.empty))
     (snd (recorrer_gantt g Map.empty Map.empty)) = (\<lambda>p. segmentos_de (pid p) g \<noteq> [])"
  by (rule ext) (simp add: presente_en_def diccionarios_de_gantt)

lemma metricas_segun_gantt:
  "segmentos_de (pid p) g \<noteq> [] \<Longrightarrow>
   metricas_segun (fst (recorrer_gantt g Map.empty Map.empty))
     (snd (recorrer_gantt g Map.empty Map.empty)) p = metricas_de p g"
  by (simp add: metricas_segun_def metricas_de_def diccionarios_de_gantt)

lemma find_SomeD: "find P xs = Some y \<Longrightarrow> P y \<and> y \<in> set xs"
  by (induction xs) (auto split: if_splits)

lemma find_distinto:
  assumes "distinct (map pid ps)" "p \<in> set ps"
  shows "find (\<lambda>y. pid y = pid p) (rev ps) = Some p"
proof -
  from assms(1) have inj: "inj_on pid (set ps)" by (simp add: distinct_map)
  from assms(2) obtain y where y: "find (\<lambda>y. pid y = pid p) (rev ps) = Some y"
    by (cases "find (\<lambda>y. pid y = pid p) (rev ps)") (auto simp: find_None_iff)
  from find_SomeD [OF y] have "pid y = pid p" "y \<in> set ps" by simp_all
  with inj assms(2) have "y = p" by (auto dest: inj_onD)
  with y show ?thesis by simp
qed

lemma recorrer_procesos_gantt:
  fixes g :: "GanttEntry list"
  defines "d1 \<equiv> fst (recorrer_gantt g Map.empty Map.empty)"
    and "d2 \<equiv> snd (recorrer_gantt g Map.empty Map.empty)"
    and "acc0 \<equiv> \<lparr>individuales = Map.empty, tiempos_respuesta = [],
                   tiempos_espera = [], tiempos_retorno = []\<rparr>"
  shows "tiempos_respuesta (recorrer_procesos d1 d2 ps acc0) =
           map (\<lambda>p. tiempo_respuesta (metricas_de p g)) (presentes ps g)"
    and "tiempos_espera (recorrer_procesos d1 d2 ps acc0) =
           map (\<lambda>p. tiempo_espera (metricas_de p g)) (presentes ps g)"
    and "tiempos_retorno (recorrer_procesos d1 d2 ps acc0) =
           map (\<lambda>p. tiempo_retorno (metricas_de p g)) (presentes ps g)"
    and "individuales (recorrer_procesos d1 d2 ps acc0) =
           (\<lambda>y. if segmentos_de y g = [] then None
                else map_option (\<lambda>p. metricas_de p g) (find (\<lambda>p. pid p = y) (rev ps)))"
proof -
  have f: "filter (presente_en d1 d2) ps = presentes ps g"
    by (simp add: presentes_def presente_en_gantt d1_def d2_def)
  have m: "map (\<lambda>p. h (metricas_segun d1 d2 p)) (presentes ps g)
         = map (\<lambda>p. h (metricas_de p g)) (presentes ps g)" for h :: "metricas_proceso \<Rightarrow> int"
    by (rule map_cong) (simp_all add: presentes_def metricas_segun_gantt d1_def d2_def)
  show "tiempos_respuesta (recorrer_procesos d1 d2 ps acc0) =
           map (\<lambda>p. tiempo_respuesta (metricas_de p g)) (presentes ps g)"
    by (simp add: recorrer_procesos_listas f m acc0_def)
  show "tiempos_espera (recorrer_procesos d1 d2 ps acc0) =
           map (\<lambda>p. tiempo_espera (metricas_de p g)) (presentes ps g)"
    by (simp add: recorrer_procesos_listas f m acc0_def)
  show "tiempos_retorno (recorrer_procesos d1 d2 ps acc0) =
           map (\<lambda>p. tiempo_retorno (metricas_de p g)) (presentes ps g)"
    by (simp add: recorrer_procesos_listas f m acc0_def)
  show "individuales (recorrer_procesos d1 d2 ps acc0) =
           (\<lambda>y. if segmentos_de y g = [] then None
                else map_option (\<lambda>p. metricas_de p g) (find (\<lambda>p. pid p = y) (rev ps)))"
  proof (rule ext)
    fix y
    have fy: "find (\<lambda>p. pid p = y \<and> presente_en d1 d2 p) (rev ps) =
        (if segmentos_de y g = [] then None else find (\<lambda>p. pid p = y) (rev ps))"
    proof (cases "segmentos_de y g = []")
      case True
      then show ?thesis by (auto simp: find_None_iff presente_en_gantt d1_def d2_def)
    next
      case False
      then have "(\<lambda>p. pid p = y \<and> presente_en d1 d2 p) = (\<lambda>p. pid p = y)"
        by (auto simp: presente_en_gantt d1_def d2_def)
      then have "find (\<lambda>p. pid p = y \<and> presente_en d1 d2 p) (rev ps)
          = find (\<lambda>p. pid p = y) (rev ps)" by (rule arg_cong)
      with False show ?thesis by simp
    qed
    have my: "metricas_segun d1 d2 p = metricas_de p g"
      if "find (\<lambda>p. pid p = y) (rev ps) = Some p" "segmentos_de y g \<noteq> []" for p
    proof -
      from find_SomeD [OF that(1)] have "pid p = y" by simp
      with that(2) show ?thesis by (simp add: metricas_segun_gantt d1_def d2_def)
    qed
    show "individuales (recorrer_procesos d1 d2 ps acc0) y =
           (if segmentos_de y g = [] then None
            else map_option (\<lambda>p. metricas_de p g) (find (\<lambda>p. pid p = y) (rev ps)))"
      by (auto simp: recorrer_procesos_individuales fy my acc0_def split: option.splits)
  qed
qed

lemma calcular_metricas_eq:
  assumes "ps \<noteq> []" "g \<noteq> []"
  shows "calcular_metricas dividir ps g =
     (case promedio dividir (length (presentes ps g))
             (map (\<lambda>p. tiempo_respuesta (metricas_de p g)) (presentes ps g)) of
        Inl e \<Rightarrow> Inl e
      | Inr a \<Rightarrow>
          (case promedio dividir (length (presentes ps g))
                  (map (\<lambda>p. tiempo_espera (metricas_de p g)) (presentes ps g)) of
             Inl e \<Rightarrow> Inl e
           | Inr b \<Rightarrow>
               (case promedio dividir (length (presentes ps g))
                       (map (\<lambda>p. tiempo_retorno (metricas_de p g)) (presentes ps g)) of
                  Inl e \<Rightarrow> Inl e
                | Inr c \<Rightarrow>
                    Inr \<lparr>metricas_individuales =
                           (\<lambda>y. if segmentos_de y g = [] then None
                                else map_option (\<lambda>p. metricas_de p g)
                                       (find (\<lambda>p. pid p = y) (rev ps))),
                         tiempo_respuesta_promedio = a,
                         tiempo_espera_promedio = b,
                         tiempo_retorno_promedio = c\<rparr>)))"
  using assms
  unfolding calcular_metricas_def Let_def recorrer_procesos_gantt length_map
  by simp

lemma encadenado_fines: "encadenado t g \<Longrightarrow> sorted (map fin_de g)"
proof (induction g arbitrary: t)
  case Nil
  then show ?case by simp
next
  case (Cons e g)
  then have "\<forall>x\<in>set g. fin_de e \<le> fin_de x"
    using encadenado_desde [of "fin_de e" g] by fastforce
  with Cons.prems Cons.IH [of "fin_de e"] show ?case by simp
qed

lemma planificar_encadenado:
  assumes "\<forall>p\<in>set ps. valido p \<and> 0 \<le> tiempo_restante p" and "0 < quantum self"
  shows "\<exists>r1 g1 r2 g2.
      FCFS_planificar ps = Inr (r1, g1) \<and> RR_planificar self ps = Some (Inr (r2, g2))
    \<and> encadenado 0 g1 \<and> encadenado 0 g2"
proof -
  let ?g1 = "snd (fcfs_bucle (sort_key tiempo_llegada ps) 0)"
  have "\<forall>p\<in>set (sort_key tiempo_llegada ps). 0 \<le> duracion p"
    using assms(1) by (auto simp: valido_def)
  then have e1: "encadenado 0 ?g1" by (rule fcfs_bucle_encadenado)
  have "rr_en_serie (rr_inicial ps)"
    using assms(1) by (simp add: rr_en_serie_def rr_inicial_def fin_ultimo_def list_all_iff)
  from RR_planificar_regla [of self rr_en_serie ps, OF assms(2) this]
    rr_en_serie_paso [OF assms(2)]
  obtain s' where s': "RR_planificar self ps =
      Some (Inr (map publicado (zip ps (procesos_copia s')), gantt s'))" "rr_en_serie s'"
    by blast
  then have e2: "encadenado 0 (gantt s')" by (simp add: rr_en_serie_def)
  show ?thesis using FCFS_planificar_eq [of ps] s'(1) e1 e2 by blast
qed

text \<open>
  Claim C5. If either input is empty, \<open>calcular_metricas\<close> returns, without raising, a
  report with an empty per-process mapping and the three averages equal to 0.
  Otherwise, when it returns a report, the mapping has an entry exactly for the
  identifiers that have an entry in the diagram and belong to a process, so that a
  process without entries is skipped; for processes with distinct identifiers the
  entry of a process holds the metrics of that process (with a repeated identifier,
  those of the last process that has it); each average is the quotient, by \<open>/\<close>, of
  the sum of the metric over the processes present by their number, and 0 when none
  is present; and the call raises only when one of these quotients does. The metrics
  of a process are: response time = start of its first entry in the sequence minus
  arrival, turnaround time = end of its last entry in the sequence minus arrival,
  wait time = turnaround time minus duration. For a diagram in time order (starts and
  ends in non-decreasing order) these are the minimum start and the maximum end over
  the entries of the process, as the claim has them. Every chained diagram is in time
  order, and so is the diagram that either scheduler returns for valid processes.
\<close>

theorem calcular_metricas_correcto:
  "(ps = [] \<or> g = [] \<longrightarrow>
      calcular_metricas dividir ps g =
        Inr \<lparr>metricas_individuales = Map.empty, tiempo_respuesta_promedio = Entero 0,
             tiempo_espera_promedio = Entero 0, tiempo_retorno_promedio = Entero 0\<rparr>)
   \<and> (ps \<noteq> [] \<and> g \<noteq> [] \<and> calcular_metricas dividir ps g = Inr r \<longrightarrow>
        (\<forall>y. metricas_individuales r y =
               (if segmentos_de y g = [] then None
                else map_option (\<lambda>p. metricas_de p g) (find (\<lambda>p. pid p = y) (rev ps))))
      \<and> (distinct (map pid ps) \<longrightarrow>
           (\<forall>p\<in>set ps. metricas_individuales r (pid p) =
               (if segmentos_de (pid p) g = [] then None else Some (metricas_de p g))))
      \<and> Inr (tiempo_respuesta_promedio r) =
           promedio dividir (length (presentes ps g))
             (map (\<lambda>p. tiempo_respuesta (metricas_de p g)) (presentes ps g))
      \<and> Inr (tiempo_espera_promedio r) =
           promedio dividir (length (presentes ps g))
             (map (\<lambda>p. tiempo_espera (metricas_de p g)) (presentes ps g))
      \<and> Inr (tiempo_retorno_promedio r) =
           promedio dividir (length (presentes ps g))
             (map (\<lambda>p. tiempo_retorno (metricas_de p g)) (presentes ps g)))
   \<and> (ps \<noteq> [] \<and> g \<noteq> [] \<and> calcular_metricas dividir ps g = Inl e \<longrightarrow>
        promedio dividir (length (presentes ps g))
          (map (\<lambda>p. tiempo_respuesta (metricas_de p g)) (presentes ps g)) = Inl e
      \<or> promedio dividir (length (presentes ps g))
          (map (\<lambda>p. tiempo_espera (metricas_de p g)) (presentes ps g)) = Inl e
      \<or> promedio dividir (length (presentes ps g))
          (map (\<lambda>p. tiempo_retorno (metricas_de p g)) (presentes ps g)) = Inl e)
   \<and> promedio dividir 0 xs = Inr (Entero 0)
   \<and> (0 < n \<longrightarrow>
        promedio dividir n xs =
          (case dividir (sum_list xs) (int n) of
             Inl e \<Rightarrow> Inl e | Inr v \<Rightarrow> Inr (Flotante v)))
   \<and> (sorted (map inicio_de g) \<and> sorted (map fin_de g) \<and> segmentos_de (pid q) g \<noteq> [] \<longrightarrow>
        metricas_de q g =
          \<lparr>tiempo_respuesta = min_inicio_de (pid q) g - tiempo_llegada q,
           tiempo_espera = max_fin_de (pid q) g - tiempo_llegada q - duracion q,
           tiempo_retorno = max_fin_de (pid q) g - tiempo_llegada q,
           m_duracion = duracion q,
           m_tiempo_llegada = tiempo_llegada q\<rparr>)
   \<and> tiempo_espera (metricas_de q g) = tiempo_retorno (metricas_de q g) - duracion q
   \<and> tiempo_respuesta (metricas_de q g) = primer_inicio_de (pid q) g - tiempo_llegada q
   \<and> tiempo_retorno (metricas_de q g) = ultimo_fin_de (pid q) g - tiempo_llegada q
   \<and> (encadenado t g \<longrightarrow> sorted (map inicio_de g) \<and> sorted (map fin_de g))
   \<and> ((\<forall>p\<in>set qs. valido p \<and> 0 \<le> tiempo_restante p) \<and> 0 < quantum self \<longrightarrow>
        (\<exists>r1 g1 r2 g2.
            FCFS_planificar qs = Inr (r1, g1) \<and> RR_planificar self qs = Some (Inr (r2, g2))
          \<and> sorted (map inicio_de g1) \<and> sorted (map fin_de g1)
          \<and> sorted (map inicio_de g2) \<and> sorted (map fin_de g2)))"
proof -
  let ?M = "\<lambda>y. if segmentos_de y g = [] then None
                else map_option (\<lambda>p. metricas_de p g) (find (\<lambda>p. pid p = y) (rev ps))"
  let ?n = "length (presentes ps g)"
  let ?a = "promedio dividir ?n (map (\<lambda>p. tiempo_respuesta (metricas_de p g)) (presentes ps g))"
  let ?b = "promedio dividir ?n (map (\<lambda>p. tiempo_espera (metricas_de p g)) (presentes ps g))"
  let ?c = "promedio dividir ?n (map (\<lambda>p. tiempo_retorno (metricas_de p g)) (presentes ps g))"
  have vacio: "calcular_metricas dividir ps g =
        Inr \<lparr>metricas_individuales = Map.empty, tiempo_respuesta_promedio = Entero 0,
             tiempo_espera_promedio = Entero 0, tiempo_retorno_promedio = Entero 0\<rparr>"
    if "ps = [] \<or> g = []"
    using that by (auto simp: calcular_metricas_def)
  have bien: "metricas_individuales r = ?M \<and> Inr (tiempo_respuesta_promedio r) = ?a
      \<and> Inr (tiempo_espera_promedio r) = ?b \<and> Inr (tiempo_retorno_promedio r) = ?c"
    if "ps \<noteq> []" "g \<noteq> []" "calcular_metricas dividir ps g = Inr r"
    using that(3) unfolding calcular_metricas_eq [OF that(1,2)]
    by (auto split: sum.splits)
  have ind: "\<forall>y. metricas_individuales r y = ?M y"
    if "ps \<noteq> []" "g \<noteq> []" "calcular_metricas dividir ps g = Inr r"
    using bien [OF that] by simp
  have unicos: "metricas_individuales r (pid p) =
               (if segmentos_de (pid p) g = [] then None else Some (metricas_de p g))"
    if "ps \<noteq> []" "g \<noteq> []" "calcular_metricas dividir ps g = Inr r"
      "distinct (map pid ps)" "p \<in> set ps" for p
    using bien [OF that(1,2,3)] that(4,5) by (simp add: find_distinto)
  have mal: "?a = Inl e \<or> ?b = Inl e \<or> ?c = Inl e"
    if "ps \<noteq> []" "g \<noteq> []" "calcular_metricas dividir ps g = Inl e"
    using that(3) unfolding calcular_metricas_eq [OF that(1,2)]
    by (auto split: sum.splits)
  have pr: "promedio dividir 0 xs = Inr (Entero 0)"
    "0 < n \<longrightarrow> promedio dividir n xs =
          (case dividir (sum_list xs) (int n) of
             Inl e \<Rightarrow> Inl e | Inr v \<Rightarrow> Inr (Flotante v))"
    by (simp_all add: promedio_def)
  have m: "tiempo_espera (metricas_de q g) = tiempo_retorno (metricas_de q g) - duracion q"
    "tiempo_respuesta (metricas_de q g) = primer_inicio_de (pid q) g - tiempo_llegada q"
    "tiempo_retorno (metricas_de q g) = ultimo_fin_de (pid q) g - tiempo_llegada q"
    by (simp_all add: metricas_de_def)
  have mm: "metricas_de q g =
          \<lparr>tiempo_respuesta = min_inicio_de (pid q) g - tiempo_llegada q,
           tiempo_espera = max_fin_de (pid q) g - tiempo_llegada q - duracion q,
           tiempo_retorno = max_fin_de (pid q) g - tiempo_llegada q,
           m_duracion = duracion q,
           m_tiempo_llegada = tiempo_llegada q\<rparr>"
    if "sorted (map inicio_de g)" "sorted (map fin_de g)" "segmentos_de (pid q) g \<noteq> []"
    using primer_inicio_min [OF that(1,3)] ultimo_fin_max [OF that(2,3)]
    by (simp add: metricas_de_def)
  have en: "sorted (map inicio_de g) \<and> sorted (map fin_de g)" if "encadenado t g"
    using that by (simp add: encadenado_sorted encadenado_fines)
  have pl: "\<exists>r1 g1 r2 g2.
            FCFS_planificar qs = Inr (r1, g1) \<and> RR_planificar self qs = Some (Inr (r2, g2))
          \<and> sorted (map inicio_de g1) \<and> sorted (map fin_de g1)
          \<and> sorted (map inicio_de g2) \<and> sorted (map fin_de g2)"
    if "\<forall>p\<in>set qs. valido p \<and> 0 \<le> tiempo_restante p" "0 < quantum self"
  proof -
    from planificar_encadenado [OF that] obtain r1 g1 r2 g2 where
      "FCFS_planificar qs = Inr (r1, g1)" "RR_planificar self qs = Some (Inr (r2, g2))"
      "encadenado 0 g1" "encadenado 0 g2" by blast
    then show ?thesis
      using encadenado_sorted [of 0 g1] encadenado_fines [of 0 g1]
        encadenado_sorted [of 0 g2] encadenado_fines [of 0 g2] by blast
  qed
  have B: "ps \<noteq> [] \<and> g \<noteq> [] \<and> calcular_metricas dividir ps g = Inr r \<longrightarrow>
        (\<forall>y. metricas_individuales r y = ?M y)
      \<and> (distinct (map pid ps) \<longrightarrow>
           (\<forall>p\<in>set ps. metricas_individuales r (pid p) =
               (if segmentos_de (pid p) g = [] then None else Some (metricas_de p g))))
      \<and> Inr (tiempo_respuesta_promedio r) = ?a
      \<and> Inr (tiempo_espera_promedio r) = ?b
      \<and> Inr (tiempo_retorno_promedio r) = ?c"
    using ind unicos bien by blast
  have C: "ps \<noteq> [] \<and> g \<noteq> [] \<and> calcular_metricas dividir ps g = Inl e \<longrightarrow>
        ?a = Inl e \<or> ?b = Inl e \<or> ?c = Inl e"
    using mal by blast
  have D: "sorted (map inicio_de g) \<and> sorted (map fin_de g) \<and> segmentos_de (pid q) g \<noteq> [] \<longrightarrow>
        metricas_de q g =
          \<lparr>tiempo_respuesta = min_inicio_de (pid q) g - tiempo_llegada q,
           tiempo_espera = max_fin_de (pid q) g - tiempo_llegada q - duracion q,
           tiempo_retorno = max_fin_de (pid q) g - tiempo_llegada q,
           m_duracion = duracion q,
           m_tiempo_llegada = tiempo_llegada q\<rparr>"
    using mm by blast
  have E: "encadenado t g \<longrightarrow> sorted (map inicio_de g) \<and> sorted (map fin_de g)"
    using en by blast
  have F: "(\<forall>p\<in>set qs. valido p \<and> 0 \<le> tiempo_restante p) \<and> 0 < quantum self \<longrightarrow>
        (\<exists>r1 g1 r2 g2.
            FCFS_planificar qs = Inr (r1, g1) \<and> RR_planificar self qs = Some (Inr (r2, g2))
          \<and> sorted (map inicio_de g1) \<and> sorted (map fin_de g1)
          \<and> sorted (map inicio_de g2) \<and> sorted (map fin_de g2))"
    using pl by blast
  have A: "ps = [] \<or> g = [] \<longrightarrow>
      calcular_metricas dividir ps g =
        Inr \<lparr>metricas_individuales = Map.empty, tiempo_respuesta_promedio = Entero 0,
             tiempo_espera_promedio = Entero 0, tiempo_retorno_promedio = Entero 0\<rparr>"
    using vacio by blast
  show ?thesis
    by (intro conjI A B C pr D m E F)
qed


text \<open>
  The diagram of FCFS for P1, P2 and P3 of durations 5, 3 and 8 arriving at 0, with the
  quotient kept as the pair of its operands: the metrics of P2, the mean response time
  13 / 3, and the error of a quotient that raises.
\<close>

theorem calcular_metricas_correcto_witness:
  "[nuevo ''P1'' 5 1 0, nuevo ''P2'' 3 2 0, nuevo ''P3'' 8 1 0] \<noteq> []
   \<and> [(''P1'', 0, 5), (''P2'', 5, 8), (''P3'', 8, 16)] \<noteq> []
   \<and> distinct (map pid [nuevo ''P1'' 5 1 0, nuevo ''P2'' 3 2 0, nuevo ''P3'' 8 1 0])
   \<and> sorted (map inicio_de [(''P1'', 0, 5), (''P2'', 5, 8), (''P3'', 8, 16)])
   \<and> sorted (map fin_de [(''P1'', 0, 5), (''P2'', 5, 8), (''P3'', 8, 16)])
   \<and> segmentos_de ''P2'' [(''P1'', 0, 5), (''P2'', 5, 8), (''P3'', 8, 16)] \<noteq> []
   \<and> map_sum id (\<lambda>r. metricas_individuales r ''P2'')
        (calcular_metricas (\<lambda>a b. Inr (a, b))
           [nuevo ''P1'' 5 1 0, nuevo ''P2'' 3 2 0, nuevo ''P3'' 8 1 0]
           [(''P1'', 0, 5), (''P2'', 5, 8), (''P3'', 8, 16)]) =
       Inr (Some \<lparr>tiempo_respuesta = 5, tiempo_espera = 5, tiempo_retorno = 8,
                  m_duracion = 3, m_tiempo_llegada = 0\<rparr>)
   \<and> map_sum id tiempo_respuesta_promedio
        (calcular_metricas (\<lambda>a b. Inr (a, b))
           [nuevo ''P1'' 5 1 0, nuevo ''P2'' 3 2 0, nuevo ''P3'' 8 1 0]
           [(''P1'', 0, 5), (''P2'', 5, 8), (''P3'', 8, 16)]) = Inr (Flotante (13, 3))
   \<and> min_inicio_de ''P2'' [(''P1'', 0, 5), (''P2'', 5, 8), (''P3'', 8, 16)] = 5
   \<and> max_fin_de ''P2'' [(''P1'', 0, 5), (''P2'', 5, 8), (''P3'', 8, 16)] = 8
   \<and> calcular_metricas (\<lambda>a b. Inl OverflowError :: error + unit)
        [nuevo ''P1'' 5 1 0, nuevo ''P2'' 3 2 0, nuevo ''P3'' 8 1 0]
        [(''P1'', 0, 5), (''P2'', 5, 8), (''P3'', 8, 16)] = Inl OverflowError"
  using calcular_metricas_correcto
    [where ps = "[nuevo ''P1'' 5 1 0, nuevo ''P2'' 3 2 0, nuevo ''P3'' 8 1 0]"
       and g = "[(''P1'', 0, 5), (''P2'', 5, 8), (''P3'', 8, 16)]"
       and dividir = "\<lambda>a b. Inr (a, b)"
       and q = "nuevo ''P2'' 3 2 0" and xs = "[0, 5, 8]" and n = 3 and t = 0
       and qs = "[]" and self = "\<lparr>quantum = 1\<rparr>" and e = OverflowError]
  by (simp add: nuevo_def calcular_metricas_def promedio_def segmentos_de_def
      inicio_de_def fin_de_def min_inicio_de_def max_fin_de_def)

end
